theory Spec2Isabelle
  imports Complex_Main
begin

section \<open>Ambient type declarations of the MusicKit namespace\<close>

text \<open>
  The repository consists of TypeScript declaration files. \<^verbatim>\<open>index.d.ts\<close> holds
  reference directives only; every other file holds one
  \<^verbatim>\<open>declare namespace MusicKit { ... }\<close> block of interfaces, type aliases, enums, one
  class, constants and function signatures. The declarations are the program, so they
  are embedded as data: a type expression of the source is a value of \<open>ty\<close>, written
  constructor for constructor as the source writes it, and a declaration is a value of
  \<open>decl\<close> under the name the source gives it. What a type checker computes from the
  declarations (enum member values, alias expansion, mapped types, the values and the
  assignability of literal types, the heritage check, the graphs of references and of
  extension) is defined over these values in the second part.

  \<^verbatim>\<open>index.d.ts\<close> references nine files. The files embedded here are
  \<^verbatim>\<open>MusicKit.d.ts\<close>, \<^verbatim>\<open>MusicKit.API.d.ts\<close>, \<^verbatim>\<open>MusicKit.Events.d.ts\<close>, the file of the
  class \<open>MKError\<close>, \<^verbatim>\<open>MusicKit.MusicKitInstance.d.ts\<close> (which also holds the player
  declarations), \<^verbatim>\<open>MusicKit.Queue.d.ts\<close> and \<^verbatim>\<open>MusicKit.SetQueueOptions.d.ts\<close>;
  \<^verbatim>\<open>MusicKit.MediaItem.d.ts\<close> is not among them.
\<close>

subsection \<open>Type expressions\<close>

datatype access = Mutable | Readonly

datatype presence = Required | Optional

text \<open>The modifier of a mapped type: \<^verbatim>\<open>[K in C]?: T\<close> or \<^verbatim>\<open>[K in C]: T\<close>.\<close>

datatype mapped_modifier = MakeOptional | Keep

datatype ty =
    TAny | TUnknown | TUndefined | TNull | TVoid
  | TString | TNumber | TBoolean
  | TStrLit string
  | TNumLit int
  | TRef string
  | TVar string
  | TApp string "ty list"
  | TArray ty
  | TKeyof ty
  | TIndex ty ty
  | TUnion "ty list"
  | TInter "ty list"
  | TTuple "ty list"
  | TFun "param list" ty
  | TMapped string ty mapped_modifier ty
  | TObj "member list"
and param = Param string presence ty
and tparam = TParam string "ty option" "ty option"
and member =
    Prop string access presence ty
  | Method string "tparam list" "param list" ty
  | IndexSig string ty ty

text \<open>
  \<open>TRef\<close> is a type name as written (possibly qualified, \<^verbatim>\<open>MusicKit.Songs\<close>),
  \<open>TVar\<close> a type parameter in scope (\<^verbatim>\<open>K\<close>, \<^verbatim>\<open>Data\<close>, \<^verbatim>\<open>T\<close>), \<open>TApp\<close> a generic
  instantiation (\<^verbatim>\<open>Relationship<Albums>\<close>), \<open>TArray t\<close> the array type \<^verbatim>\<open>t[]\<close>,
  \<open>TIndex\<close> an indexed access (\<^verbatim>\<open>Albums['attributes']\<close>), \<open>TMapped k c m t\<close> the mapped
  type \<^verbatim>\<open>{ [k in c]m: t }\<close>, \<open>TObj\<close> an object type written in place. A member is a
  property (\<^verbatim>\<open>readonly\<close> or not, optional \<^verbatim>\<open>?\<close> or not), a method signature or an
  index signature. A \<open>tparam\<close> carries its constraint and its default.
\<close>

subsection \<open>Declarations\<close>

datatype decl =
    Interface "tparam list" "ty list" "member list"
  | Alias ty
  | Enum "(string \<times> int option) list"
  | Class "ty list" "member list" "member list"
  | Const ty
  | Function "param list" ty

text \<open>
  \<open>Interface ps es ms\<close>: the type parameters, the \<^verbatim>\<open>extends\<close> clause, the members.
  \<open>Enum\<close>: the members with their initialisers, where written.
  \<open>Class es ms ss\<close>: the \<^verbatim>\<open>extends\<close> clause, the instance members, the static members.
  \<open>Const\<close> and \<open>Function\<close>: a \<^verbatim>\<open>const\<close> with its type, a function signature with its
  parameters and result type. An ambient declaration has no initialiser and no body, so
  none of the forms carries an expression or a statement.
\<close>

subsection \<open>The declarations of MusicKit.d.ts\<close>

definition AppConfiguration :: decl where
  "AppConfiguration = Interface [] [] [
    Prop ''build'' Mutable Optional (TUnion [TString, TUndefined]),
    Prop ''icon'' Mutable Optional (TUnion [TString, TUndefined]),
    Prop ''name'' Mutable Optional (TUnion [TString, TUndefined]),
    Prop ''version'' Mutable Optional (TUnion [TString, TUndefined])]"

definition FormattedPlaybackDuration :: decl where
  "FormattedPlaybackDuration = Interface [] []
    [Prop ''hours'' Mutable Required TNumber, Prop ''minutes'' Mutable Required TNumber]"

definition EmbedOptions :: decl where
  "EmbedOptions = Interface [] [] [
    Prop ''height'' Mutable Required (TUnion [TNumber, TString]),
    Prop ''width'' Mutable Required (TUnion [TNumber, TString])]"

definition errors :: decl where
  "errors = Const (TArray (TRef ''MKError''))"

definition version :: decl where
  "version = Const TString"

definition MusicKit__log :: decl where
  "MusicKit__log = Const (TRef ''Logger'')"

definition AuthStatus :: decl where
  "AuthStatus = Enum [
    (''NOT_DETERMINED'', Some 0),
    (''DENIED'', Some 1),
    (''RESTRICTED'', Some 2),
    (''AUTHORIZED'', Some 3)]"

definition Logger :: decl where
  "Logger = Interface [] [] [
    Method ''clearLoggingLevels'' [] [] TVoid,
    Method ''getLogger'' [] [] TUnknown,
    Method ''setLoggingLevels'' [] [
      Param ''level'' Required (TUnion [
        TStrLit ''TRACE'',
        TStrLit ''DEBUG'',
        TStrLit ''INFO'',
        TStrLit ''WARN'',
        TStrLit ''ERROR'']),
      Param ''show'' Required TBoolean]
      TVoid]"

definition Configuration :: decl where
  "Configuration = Interface [] [] [
    Prop ''app'' Mutable Optional (TUnion [TRef ''AppConfiguration'', TUndefined]),
    Prop ''declarativeMarkup'' Mutable Optional (TUnion [TBoolean, TUndefined]),
    Prop ''developerToken'' Mutable Optional (TUnion [TString, TUndefined]),
    Prop ''storefrontId'' Mutable Optional (TUnion [TString, TUndefined]),
    Prop ''bitrate'' Mutable Optional (TUnion [TRef ''PlaybackBitrate'', TUndefined]),
    Prop ''sourceType'' Mutable Optional (TUnion [TNumber, TUndefined]),
    Prop ''suppressErrorDialog'' Mutable Optional (TUnion [TBoolean, TUndefined])]"

definition configure :: decl where
  "configure = Function [Param ''configuration'' Required (TRef ''Configuration'')]
    (TApp ''Promise'' [TRef ''MusicKitInstance''])"

definition getInstance :: decl where
  "getInstance = Function [] (TRef ''MusicKitInstance'')"

definition formatArtworkURL :: decl where
  "formatArtworkURL = Function [
    Param ''artwork'' Required (TRef ''Artwork''),
    Param ''height'' Optional TNumber,
    Param ''width'' Optional TNumber]
    TString"

definition formattedMilliseconds :: decl where
  "formattedMilliseconds = Function [Param ''milliseconds'' Required TNumber]
    (TRef ''FormattedPlaybackDuration'')"

definition formattedSeconds :: decl where
  "formattedSeconds = Function [Param ''seconds'' Required TNumber]
    (TRef ''FormattedPlaybackDuration'')"

definition generateEmbedCode :: decl where
  "generateEmbedCode = Function
    [Param ''url'' Required TString, Param ''options'' Required (TRef ''EmbedOptions'')]
    TString"

definition formatMediaTime :: decl where
  "formatMediaTime = Function
    [Param ''seconds'' Required TNumber, Param ''separator'' Optional TString]
    TString"

subsection \<open>The declarations of MusicKit.API.d.ts\<close>

definition MusicItemID :: decl where
  "MusicItemID = Alias TString"

definition ContentRating :: decl where
  "ContentRating = Alias (TUnion [TStrLit ''clean'', TStrLit ''explicit''])"

definition BaseResource :: decl where
  "BaseResource = Interface [] [] [
    Prop ''id'' Mutable Required TString,
    Prop ''type'' Mutable Required TString,
    Prop ''href'' Mutable Required TString,
    Prop ''attributes'' Mutable Required (TApp ''Record'' [TString, TAny]),
    Prop ''relationships'' Mutable Optional (TApp ''Record'' [
      TString,
      TUnion [
        TApp ''Relationship'' [TRef ''Resource''],
        TApp ''Array'' [TApp ''Relationship'' [TRef ''Resource'']]]]),
    Prop ''meta'' Mutable Optional (TApp ''Record'' [TString, TAny]),
    Prop ''views'' Mutable Optional (TApp ''Record'' [
      TString,
      TUnion [TApp ''View'' [TRef ''Resource''], TApp ''Relationship'' [TRef ''Resource'']]])]"

definition BaseMediaResource :: decl where
  "BaseMediaResource = Interface [] [TRef ''BaseResource''] [
    Prop ''attributes'' Mutable Required (TObj [
      Prop ''name'' Mutable Required TString,
      Prop ''artistName'' Mutable Required TString,
      Prop ''artwork'' Mutable Required (TRef ''Artwork''),
      Prop ''genreNames'' Mutable Required (TArray TString),
      Prop ''contentRating'' Mutable Optional (TRef ''ContentRating''),
      Prop ''url'' Mutable Required TString,
      Prop ''personalRating'' Mutable Optional TNumber,
      Prop ''inLibrary'' Mutable Optional TBoolean,
      Prop ''inFavorites'' Mutable Optional TBoolean])]"

definition BaseLibraryResource :: decl where
  "BaseLibraryResource = Interface [] [TRef ''BaseResource''] [
    Prop ''attributes'' Mutable Required (TObj [
      Prop ''dateAdded'' Mutable Optional TString,
      Prop ''personalRating'' Mutable Optional TNumber,
      Prop ''inFavorites'' Mutable Optional TBoolean])]"

definition ResourceMap :: decl where
  "ResourceMap = Interface [] [] [
    Prop ''songs'' Mutable Optional (TRef ''MusicKit.Songs''),
    Prop ''albums'' Mutable Optional (TRef ''MusicKit.Albums''),
    Prop ''artists'' Mutable Optional (TRef ''MusicKit.Artists''),
    Prop ''playlists'' Mutable Optional (TRef ''MusicKit.Playlists''),
    Prop ''storefronts'' Mutable Optional (TRef ''MusicKit.Storefronts''),
    Prop ''library-playlist-folders'' Mutable Optional (TRef ''MusicKit.LibraryPlaylists''),
    Prop ''library-playlists'' Mutable Optional (TRef ''MusicKit.LibraryPlaylists''),
    Prop ''library-songs'' Mutable Optional (TRef ''MusicKit.LibrarySongs''),
    Prop ''library-albums'' Mutable Optional (TRef ''MusicKit.LibraryAlbums''),
    Prop ''library-artists'' Mutable Optional (TRef ''MusicKit.Artists''),
    Prop ''curator'' Mutable Optional (TRef ''MusicKit.Curators''),
    Prop ''social-profiles'' Mutable Optional (TRef ''MusicKit.SocialProfile''),
    Prop ''apple-curators'' Mutable Optional (TRef ''MusicKit.AppleCurators''),
    Prop ''credit-artists'' Mutable Optional (TRef ''MusicKit.CreditArtist''),
    Prop ''lyrics'' Mutable Optional (TRef ''MusicKit.Lyrics''),
    Prop ''credits'' Mutable Optional (TRef ''MusicKit.Credit''),
    Prop ''catalog'' Mutable Optional (TApp ''Relationship'' [TRef ''Playlists'']),
    Prop ''personal-recommendation'' Mutable Required (TRef ''MusicKit.PersonalRecommendation''),
    Prop ''stations'' Mutable Required (TRef ''MusicKit.Stations''),
    Prop ''music-summaries'' Mutable Required (TRef ''MusicKit.ReplaySummary''),
    Prop ''music-summaries-milestones'' Mutable Required (TRef ''MusicKit.ReplayMilestone''),
    Prop ''editorial-items'' Mutable Required (TRef ''MusicKit.EditorialItem'')]"

definition Relationships :: decl where
  "Relationships = Alias (TMapped ''K'' (TKeyof (TRef ''MusicKit.ResourceMap'')) MakeOptional
    (TApp ''Relationship'' [TIndex (TRef ''MusicKit.ResourceMap'') (TVar ''K'')]))"

definition Relationship :: decl where
  "Relationship = Interface [TParam ''Data'' None None] [] [
    Prop ''href'' Mutable Optional TString,
    Prop ''next'' Mutable Optional TString,
    Prop ''data'' Mutable Required (TArray (TVar ''Data'')),
    Prop ''meta'' Mutable Optional (TApp ''Record'' [TString, TAny])]"

definition View :: decl where
  "View = Interface [TParam ''Data'' None None] [] [
    Prop ''href'' Mutable Optional TString,
    Prop ''next'' Mutable Optional TString,
    Prop ''attributes'' Mutable Required (TObj [Prop ''title'' Mutable Required TString]),
    Prop ''data'' Mutable Required (TArray (TVar ''Data'')),
    Prop ''meta'' Mutable Optional (TApp ''Record'' [TString, TAny])]"

definition Resource :: decl where
  "Resource = Interface [] [TRef ''BaseResource''] []"

definition Storefronts :: decl where
  "Storefronts = Interface [] [TRef ''Resource''] [
    Prop ''type'' Mutable Required (TStrLit ''storefronts''),
    Prop ''attributes'' Mutable Required (TObj [
      Prop ''defaultLanguageTag'' Mutable Required TString,
      Prop ''explicitContentPolicy'' Mutable Required
        (TUnion [TStrLit ''allowed'', TStrLit ''opt-in'', TStrLit ''prohibited'']),
      Prop ''name'' Mutable Required TString,
      Prop ''supportedLanguageTags'' Mutable Required (TArray TString)])]"

definition Genres :: decl where
  "Genres = Interface [] [TRef ''Resource''] [
    Prop ''type'' Mutable Required (TStrLit ''genres''),
    Prop ''attributes'' Mutable Required (TObj [
      Prop ''name'' Mutable Required TString,
      Prop ''parentId'' Mutable Optional TString,
      Prop ''parentName'' Mutable Optional TString])]"

definition Songs :: decl where
  "Songs = Interface [] [TRef ''Resource''] [
    Prop ''id'' Mutable Required (TRef ''MusicItemID''),
    Prop ''type'' Mutable Required (TStrLit ''songs''),
    Prop ''attributes'' Mutable Required (TObj [
      Prop ''albumName'' Mutable Required TString,
      Prop ''artistName'' Mutable Required TString,
      Prop ''artwork'' Mutable Required (TRef ''Artwork''),
      Prop ''attribution'' Mutable Optional TString,
      Prop ''composerName'' Mutable Optional TString,
      Prop ''contentRating'' Mutable Optional (TRef ''ContentRating''),
      Prop ''discNumber'' Mutable Optional TNumber,
      Prop ''durationInMillis'' Mutable Required TNumber,
      Prop ''editorialNotes'' Mutable Optional (TRef ''EditorialNotes''),
      Prop ''genreNames'' Mutable Required (TArray TString),
      Prop ''hasLyrics'' Mutable Required TBoolean,
      Prop ''isrc'' Mutable Optional TString,
      Prop ''movementCount'' Mutable Optional TNumber,
      Prop ''movementName'' Mutable Optional TString,
      Prop ''movementNumber'' Mutable Optional TNumber,
      Prop ''name'' Mutable Required TString,
      Prop ''playParams'' Mutable Optional (TRef ''PlayParameters''),
      Prop ''previews'' Mutable Required (TArray (TRef ''Preview'')),
      Prop ''releaseDate'' Mutable Optional TString,
      Prop ''trackNumber'' Mutable Optional TNumber,
      Prop ''url'' Mutable Required TString,
      Prop ''workName'' Mutable Optional TString,
      Prop ''artistUrl'' Mutable Optional TString,
      Prop ''personalRating'' Mutable Optional TNumber,
      Prop ''inLibrary'' Mutable Optional TBoolean,
      Prop ''inFavorites'' Mutable Optional TBoolean,
      Prop ''audioLocale'' Mutable Optional TString]),
    Prop ''relationships'' Mutable Optional (TObj [
      Prop ''albums'' Mutable Optional (TApp ''Relationship'' [TRef ''Albums'']),
      Prop ''artists'' Mutable Optional (TApp ''Relationship'' [TRef ''Artists'']),
      Prop ''genres'' Mutable Optional (TApp ''Relationship'' [TRef ''Genres'']),
      Prop ''station'' Mutable Optional (TApp ''Relationship'' [TRef ''Stations'']),
      Prop ''composers'' Mutable Optional (TApp ''Relationship'' [TRef ''Artists'']),
      Prop ''library'' Mutable Optional (TApp ''Relationship'' [TRef ''LibraryAlbums'']),
      Prop ''music-videos'' Mutable Optional (TApp ''Relationship'' [TRef ''MusicVideos'']),
      Prop ''audio-analysis'' Mutable Optional (TApp ''Relationship'' [TRef ''AudioAnalysis''])])]"

definition MusicVideos :: decl where
  "MusicVideos = Interface [] [TRef ''Resource''] [
    Prop ''id'' Mutable Required (TRef ''MusicItemID''),
    Prop ''type'' Mutable Required (TStrLit ''music-videos''),
    Prop ''attributes'' Mutable Required (TObj [
      Prop ''albumName'' Mutable Optional TString,
      Prop ''artistName'' Mutable Required TString,
      Prop ''artwork'' Mutable Required (TRef ''Artwork''),
      Prop ''contentRating'' Mutable Optional (TRef ''ContentRating''),
      Prop ''durationInMillis'' Mutable Required TNumber,
      Prop ''editorialNotes'' Mutable Optional (TRef ''EditorialNotes''),
      Prop ''genreNames'' Mutable Required (TArray TString),
      Prop ''has4K'' Mutable Required TBoolean,
      Prop ''hasHDR'' Mutable Required TBoolean,
      Prop ''isrc'' Mutable Optional TString,
      Prop ''name'' Mutable Required TString,
      Prop ''playParams'' Mutable Optional (TRef ''PlayParameters''),
      Prop ''previews'' Mutable Required (TArray (TRef ''Preview'')),
      Prop ''releaseDate'' Mutable Optional TString,
      Prop ''trackNumber'' Mutable Optional TNumber,
      Prop ''url'' Mutable Required TString,
      Prop ''videoSubType'' Mutable Optional (TStrLit ''preview''),
      Prop ''workId'' Mutable Optional TString,
      Prop ''workName'' Mutable Optional TString,
      Prop ''artistUrl'' Mutable Optional TString,
      Prop ''personalRating'' Mutable Optional TNumber,
      Prop ''inLibrary'' Mutable Optional TBoolean,
      Prop ''inFavorites'' Mutable Optional TBoolean]),
    Prop ''relationships'' Mutable Optional (TInter [
      TObj [
        Prop ''albums'' Mutable Required (TApp ''Relationship'' [TRef ''Albums'']),
        Prop ''genres'' Mutable Required (TApp ''Relationship'' [TRef ''Genres'']),
        Prop ''library'' Mutable Required (TApp ''Relationship'' [TRef ''LibraryAlbums'']),
        Prop ''songs'' Mutable Required (TApp ''Relationship'' [TRef ''Songs''])],
      TApp ''Record'' [
        TString,
        TUnion [
          TApp ''Relationship'' [TRef ''Resource''],
          TApp ''Array'' [TApp ''Relationship'' [TRef ''Resource'']]]]]),
    Prop ''views'' Mutable Required (TObj [
      Prop ''more-by-artist'' Mutable Required (TApp ''View'' [TRef ''MusicVideos'']),
      Prop ''more-in-genre'' Mutable Required (TApp ''View'' [TRef ''MusicVideos''])])]"

definition AppleCurators :: decl where
  "AppleCurators = Interface [] [TRef ''Resource''] [
    Prop ''type'' Mutable Required (TStrLit ''apple-curators''),
    Prop ''attributes'' Mutable Required (TObj [
      Prop ''artwork'' Mutable Required (TRef ''Artwork''),
      Prop ''editorialNotes'' Mutable Optional (TRef ''EditorialNotes''),
      Prop ''kind'' Mutable Required
        (TUnion [TStrLit ''Curator'', TStrLit ''Genre'', TStrLit ''Show'']),
      Prop ''name'' Mutable Required TString,
      Prop ''shortName'' Mutable Optional TString,
      Prop ''showHostName'' Mutable Optional TString,
      Prop ''url'' Mutable Required TString]),
    Prop ''relationships'' Mutable Optional (TInter [
      TObj [Prop ''playlists'' Mutable Required (TApp ''Relationship'' [TRef ''Playlists''])],
      TApp ''Record'' [
        TString,
        TUnion [
          TApp ''Relationship'' [TRef ''Resource''],
          TApp ''Array'' [TApp ''Relationship'' [TRef ''Resource'']]]]])]"

definition Curators :: decl where
  "Curators = Interface [] [TRef ''Resource''] [
    Prop ''type'' Mutable Required (TStrLit ''curator''),
    Prop ''attributes'' Mutable Required (TObj [
      Prop ''artwork'' Mutable Required (TRef ''Artwork''),
      Prop ''editorialNotes'' Mutable Optional (TRef ''EditorialNotes''),
      Prop ''name'' Mutable Required TString,
      Prop ''url'' Mutable Required TString]),
    Prop ''relationships'' Mutable Required
      (TObj [Prop ''playlists'' Mutable Required (TApp ''Relationship'' [TRef ''Playlists''])])]"

definition Stations :: decl where
  "Stations = Interface [] [TRef ''Resource''] [
    Prop ''type'' Mutable Required (TStrLit ''stations''),
    Prop ''attributes'' Mutable Required (TObj [
      Prop ''artwork'' Mutable Required (TRef ''Artwork''),
      Prop ''durationInMillis'' Mutable Required TNumber,
      Prop ''editorialNotes'' Mutable Required (TRef ''EditorialNotes''),
      Prop ''episodeNumber'' Mutable Required TNumber,
      Prop ''contentRating'' Mutable Optional (TRef ''ContentRating''),
      Prop ''isLive'' Mutable Required TBoolean,
      Prop ''name'' Mutable Required TString,
      Prop ''playParams'' Mutable Required (TRef ''PlayParameters''),
      Prop ''stationProviderName'' Mutable Required TString,
      Prop ''url'' Mutable Required TString,
      Prop ''personalRating'' Mutable Optional TNumber,
      Prop ''inLibrary'' Mutable Optional TBoolean,
      Prop ''inFavorites'' Mutable Optional TBoolean])]"

definition RecordLabels :: decl where
  "RecordLabels = Interface [] [TRef ''Resource''] [
    Prop ''id'' Mutable Required (TRef ''MusicItemID''),
    Prop ''type'' Mutable Required (TStrLit ''record-labels''),
    Prop ''attributes'' Mutable Required (TObj [
      Prop ''artwork'' Mutable Required (TRef ''Artwork''),
      Prop ''description'' Mutable Required (TRef ''DescriptionAttribute''),
      Prop ''name'' Mutable Required TString,
      Prop ''url'' Mutable Required TString]),
    Prop ''views'' Mutable Required (TObj [
      Prop ''latest-releases'' Mutable Required (TApp ''View'' [TRef ''Albums'']),
      Prop ''top-releases'' Mutable Required (TApp ''View'' [TRef ''Albums''])])]"

definition Albums :: decl where
  "Albums = Interface [] [TRef ''Resource''] [
    Prop ''type'' Mutable Required (TStrLit ''albums''),
    Prop ''attributes'' Mutable Required (TObj [
      Prop ''artistName'' Mutable Required TString,
      Prop ''artistUrl'' Mutable Optional TString,
      Prop ''artwork'' Mutable Required (TRef ''Artwork''),
      Prop ''contentRating'' Mutable Optional (TRef ''ContentRating''),
      Prop ''copyright'' Mutable Optional TString,
      Prop ''editorialNotes'' Mutable Optional (TRef ''EditorialNotes''),
      Prop ''genreNames'' Mutable Required (TArray TString),
      Prop ''isCompilation'' Mutable Required TBoolean,
      Prop ''isPrerelease'' Mutable Required TBoolean,
      Prop ''isComplete'' Mutable Required TBoolean,
      Prop ''isMasteredForItunes'' Mutable Required TBoolean,
      Prop ''isSingle'' Mutable Required TBoolean,
      Prop ''name'' Mutable Required TString,
      Prop ''playParams'' Mutable Optional (TRef ''PlayParameters''),
      Prop ''recordLabel'' Mutable Optional TString,
      Prop ''releaseDate'' Mutable Optional TString,
      Prop ''trackCount'' Mutable Required TNumber,
      Prop ''dateAdded'' Mutable Optional TString,
      Prop ''upc'' Mutable Optional TString,
      Prop ''editorialVideo'' Mutable Optional (TRef ''EditorialVideo''),
      Prop ''url'' Mutable Required TString,
      Prop ''personalRating'' Mutable Optional TNumber,
      Prop ''inLibrary'' Mutable Optional TBoolean,
      Prop ''inFavorites'' Mutable Optional TBoolean]),
    Prop ''relationships'' Mutable Optional (TInter [
      TObj [
        Prop ''artists'' Mutable Required (TApp ''Relationship'' [TRef ''Artists'']),
        Prop ''genres'' Mutable Required (TApp ''Relationship'' [TRef ''Genres'']),
        Prop ''tracks'' Mutable Required
          (TApp ''Relationship'' [TUnion [TRef ''MusicVideos'', TRef ''Songs'']]),
        Prop ''library'' Mutable Required (TApp ''Relationship'' [TRef ''LibraryAlbums'']),
        Prop ''record-labels'' Mutable Required (TApp ''Relationship'' [TRef ''RecordLabels''])],
      TApp ''Record'' [
        TString,
        TUnion [
          TApp ''Relationship'' [TRef ''Resource''],
          TApp ''Array'' [TApp ''Relationship'' [TRef ''Resource'']]]]]),
    Prop ''views'' Mutable Required (TObj [
      Prop ''appears-on'' Mutable Required (TApp ''View'' [TRef ''Playlists'']),
      Prop ''other-versions'' Mutable Required (TApp ''View'' [TRef ''Albums'']),
      Prop ''related-albums'' Mutable Required (TApp ''View'' [TRef ''Albums'']),
      Prop ''related-videos'' Mutable Required (TApp ''View'' [TRef ''MusicVideos''])])]"

definition LibraryAlbums :: decl where
  "LibraryAlbums = Interface [] [TRef ''Albums''] [
    Prop ''type'' Mutable Required (TStrLit ''library-albums''),
    Prop ''attributes'' Mutable Required (TInter [
      TIndex (TRef ''Albums'') (TStrLit ''attributes''),
      TObj [
        Prop ''dateAdded'' Mutable Optional TString,
        Prop ''releaseDate'' Mutable Optional TString,
        Prop ''trackCount'' Mutable Required TNumber,
        Prop ''personalRating'' Mutable Optional TNumber,
        Prop ''inFavorites'' Mutable Optional TBoolean]]),
    Prop ''relationships'' Mutable Optional (TInter [
      TObj [
        Prop ''artists'' Mutable Required (TApp ''Relationship'' [TRef ''Artists'']),
        Prop ''catalog'' Mutable Required (TApp ''Relationship'' [TRef ''Playlists'']),
        Prop ''tracks'' Mutable Required
          (TApp ''Relationship'' [TUnion [TRef ''MusicVideos'', TRef ''Songs'']])],
      TApp ''Record'' [
        TString,
        TUnion [
          TApp ''Relationship'' [TRef ''Resource''],
          TApp ''Array'' [TApp ''Relationship'' [TRef ''Resource'']]]]]),
    Prop ''views'' Mutable Optional TUndefined]"

definition LibrarySongs :: decl where
  "LibrarySongs = Interface [] [TRef ''Songs''] [
    Prop ''type'' Mutable Required (TStrLit ''library-songs''),
    Prop ''attributes'' Mutable Required (TInter [
      TIndex (TRef ''Songs'') (TStrLit ''attributes''),
      TObj [
        Prop ''personalRating'' Mutable Optional TNumber,
        Prop ''inFavorites'' Mutable Optional TBoolean]]),
    Prop ''relationships'' Mutable Optional (TObj [
      Prop ''albums'' Mutable Optional (TApp ''Relationship'' [TRef ''Albums'']),
      Prop ''artists'' Mutable Optional (TApp ''Relationship'' [TRef ''Artists'']),
      Prop ''genres'' Mutable Optional (TApp ''Relationship'' [TRef ''Genres'']),
      Prop ''station'' Mutable Optional (TApp ''Relationship'' [TRef ''Stations'']),
      Prop ''composers'' Mutable Optional (TApp ''Relationship'' [TRef ''Artists'']),
      Prop ''library'' Mutable Optional (TApp ''Relationship'' [TRef ''LibraryAlbums'']),
      Prop ''music-videos'' Mutable Optional (TApp ''Relationship'' [TRef ''MusicVideos''])]),
    Prop ''views'' Mutable Optional TUndefined]"

definition LibraryPlaylists :: decl where
  "LibraryPlaylists = Interface [] [TRef ''Resource''] [
    Prop ''id'' Mutable Required (TRef ''MusicItemID''),
    Prop ''type'' Mutable Required
      (TUnion [TStrLit ''library-playlists'', TStrLit ''library-playlist-folders'']),
    Prop ''attributes'' Mutable Required (TObj [
      Prop ''hasCollaboration'' Mutable Optional TBoolean,
      Prop ''lastModifiedDate'' Mutable Required TString,
      Prop ''trackCount'' Mutable Optional TNumber,
      Prop ''canDelete'' Mutable Required TBoolean,
      Prop ''canEdit'' Mutable Required TBoolean,
      Prop ''dateAdded'' Mutable Required TString,
      Prop ''description'' Mutable Required (TRef ''DescriptionAttribute''),
      Prop ''artwork'' Mutable Optional (TRef ''Artwork''),
      Prop ''hasCatalog'' Mutable Required TBoolean,
      Prop ''isPublic'' Mutable Required TBoolean,
      Prop ''name'' Mutable Required TString,
      Prop ''playParams'' Mutable Required (TRef ''PlayParameters''),
      Prop ''personalRating'' Mutable Optional TNumber,
      Prop ''inFavorites'' Mutable Optional TBoolean]),
    Prop ''relationships'' Mutable Optional (TObj [
      Prop ''catalog'' Mutable Required (TApp ''Relationship'' [TRef ''Playlists'']),
      Prop ''tracks'' Mutable Required
        (TApp ''Relationship'' [TUnion [TRef ''MusicVideos'', TRef ''Songs'']])]),
    Prop ''parent'' Mutable Required TString,
    Prop ''views'' Mutable Optional TUndefined]"

definition Artists :: decl where
  "Artists = Interface [] [TRef ''Resource''] [
    Prop ''type'' Mutable Required (TStrLit ''artists''),
    Prop ''attributes'' Mutable Required (TObj [
      Prop ''editorialNotes'' Mutable Optional (TRef ''EditorialNotes''),
      Prop ''genreNames'' Mutable Required (TArray TString),
      Prop ''name'' Mutable Required TString,
      Prop ''url'' Mutable Required TString,
      Prop ''artwork'' Mutable Optional (TRef ''Artwork''),
      Prop ''personalRating'' Mutable Optional TNumber,
      Prop ''inLibrary'' Mutable Optional TBoolean,
      Prop ''inFavorites'' Mutable Optional TBoolean]),
    Prop ''relationships'' Mutable Optional (TInter [
      TObj [
        Prop ''albums'' Mutable Required (TApp ''Relationship'' [TRef ''Albums'']),
        Prop ''genres'' Mutable Required (TApp ''Relationship'' [TRef ''Genres'']),
        Prop ''music-videos'' Mutable Required (TApp ''Relationship'' [TRef ''MusicVideos'']),
        Prop ''playlists'' Mutable Required (TApp ''Relationship'' [TRef ''Playlists'']),
        Prop ''station'' Mutable Required (TApp ''Relationship'' [TRef ''Stations'']),
        Prop ''catalog'' Mutable Optional (TApp ''Relationship'' [TRef ''Artists''])],
      TApp ''Record'' [
        TString,
        TUnion [
          TApp ''Relationship'' [TRef ''Resource''],
          TApp ''Array'' [TApp ''Relationship'' [TRef ''Resource'']]]]]),
    Prop ''views'' Mutable Required (TObj [
      Prop ''appears-on-albums'' Mutable Required (TApp ''View'' [TRef ''Albums'']),
      Prop ''compilation-albums'' Mutable Required (TObj [
        Prop ''href'' Mutable Optional TString,
        Prop ''next'' Mutable Optional TString,
        Prop ''attributes'' Mutable Required (TObj [Prop ''title'' Mutable Required TString]),
        Prop ''data'' Mutable Required (TArray (TRef ''Albums''))]),
      Prop ''featured-albums'' Mutable Required (TApp ''View'' [TRef ''Albums'']),
      Prop ''featured-playlists'' Mutable Required (TApp ''View'' [TRef ''Playlists'']),
      Prop ''full-albums'' Mutable Required (TApp ''View'' [TRef ''Albums'']),
      Prop ''latest-release'' Mutable Required (TApp ''View'' [TRef ''Albums'']),
      Prop ''live-albums'' Mutable Required (TApp ''View'' [TRef ''Albums'']),
      Prop ''similar-artists'' Mutable Required (TApp ''View'' [TRef ''Artists'']),
      Prop ''singles'' Mutable Required (TApp ''View'' [TRef ''Albums'']),
      Prop ''top-music-videos'' Mutable Required (TApp ''View'' [TRef ''MusicVideos'']),
      Prop ''top-songs'' Mutable Required (TApp ''View'' [TRef ''Songs''])])]"

definition Playlists :: decl where
  "Playlists = Interface [] [TRef ''Resource''] [
    Prop ''id'' Mutable Required (TRef ''MusicItemID''),
    Prop ''type'' Mutable Required (TStrLit ''playlists''),
    Prop ''attributes'' Mutable Required (TObj [
      Prop ''lastModifiedDate'' Mutable Required TString,
      Prop ''supportsSings'' Mutable Required TBoolean,
      Prop ''description'' Mutable Required (TRef ''DescriptionAttribute''),
      Prop ''artwork'' Mutable Required (TRef ''Artwork''),
      Prop ''url'' Mutable Required TString,
      Prop ''playParams'' Mutable Required (TRef ''PlayParameters''),
      Prop ''trackCount'' Mutable Optional TNumber,
      Prop ''curatorName'' Mutable Required TString,
      Prop ''curatorSocialHandle'' Mutable Optional TString,
      Prop ''audioTraits'' Mutable Required (TArray TString),
      Prop ''editorialArtwork'' Mutable Required (TRef ''EditorialArtwork''),
      Prop ''name'' Mutable Required TString,
      Prop ''isChart'' Mutable Required TBoolean,
      Prop ''playlistType'' Mutable Required (TUnion [
        TStrLit ''editorial'',
        TStrLit ''external'',
        TStrLit ''personal-mix'',
        TStrLit ''replay'',
        TStrLit ''user-shared'']),
      Prop ''editorialVideo'' Mutable Optional (TRef ''EditorialVideo''),
      Prop ''editorialNotes'' Mutable Optional (TRef ''EditorialNotes''),
      Prop ''versionHash'' Mutable Optional TString,
      Prop ''trackTypes'' Mutable Required
        (TApp ''Array'' [TUnion [TStrLit ''music-videos'', TStrLit ''songs'']]),
      Prop ''tags'' Mutable Optional (TTuple [TStrLit ''favorited'']),
      Prop ''personalRating'' Mutable Optional TNumber,
      Prop ''inLibrary'' Mutable Optional TBoolean,
      Prop ''inFavorites'' Mutable Optional TBoolean]),
    Prop ''relationships'' Mutable Optional (TObj [
      Prop ''curator'' Mutable Optional (TApp ''Relationship''
        [TUnion [TRef ''Activities'', TRef ''AppleCurators'', TRef ''Curators'']]),
      Prop ''library'' Mutable Optional (TApp ''Relationship'' [TRef ''LibraryPlaylists'']),
      Prop ''tracks'' Mutable Optional
        (TApp ''Relationship'' [TUnion [TRef ''MusicVideos'', TRef ''Songs'']])]),
    Prop ''views'' Mutable Required (TObj [
      Prop ''featured-artists'' Mutable Required (TApp ''View'' [TRef ''Artists'']),
      Prop ''more-by-curator'' Mutable Required (TApp ''View'' [TRef ''Playlists''])])]"

definition PodcastAttributes :: decl where
  "PodcastAttributes = Interface [] [] [
    Prop ''offers'' Mutable Required (TArray
      (TObj [Prop ''kind'' Mutable Required TString, Prop ''type'' Mutable Required TString])),
    Prop ''contentAdvisory'' Mutable Required TString,
    Prop ''copyright'' Mutable Required TString,
    Prop ''artworkOrigin'' Mutable Required (TStrLit ''podcast''),
    Prop ''genreNames'' Mutable Required (TArray TString),
    Prop ''kind'' Mutable Required TString,
    Prop ''mediaKind'' Mutable Required TString,
    Prop ''description'' Mutable Required (TRef ''DescriptionAttribute''),
    Prop ''artwork'' Mutable Required (TRef ''Artwork''),
    Prop ''url'' Mutable Required TString,
    Prop ''releaseDateTime'' Mutable Required TString,
    Prop ''websiteUrl'' Mutable Required TString,
    Prop ''durationInMilliseconds'' Mutable Required TNumber,
    Prop ''name'' Mutable Required TString,
    Prop ''guid'' Mutable Required TString,
    Prop ''contentRating'' Mutable Required (TRef ''ContentRating''),
    Prop ''artistName'' Mutable Required TString,
    Prop ''subscribable'' Mutable Required TBoolean,
    Prop ''assetUrl'' Mutable Required TString]"

definition PodcastEpisode :: decl where
  "PodcastEpisode = Interface [] [TRef ''Resource''] [
    Prop ''type'' Mutable Required (TStrLit ''podcast-episodes''),
    Prop ''attributes'' Mutable Required (TRef ''PodcastAttributes'')]"

definition Podcasts :: decl where
  "Podcasts = Interface [] [TRef ''Resource''] [
    Prop ''type'' Mutable Required (TStrLit ''podcasts''),
    Prop ''attributes'' Mutable Required (TInter [
      TRef ''PodcastAttributes'',
      TObj [
        Prop ''seasonNumbers'' Mutable Required (TArray TNumber),
        Prop ''languageTag'' Mutable Required TString,
        Prop ''completed'' Mutable Required TBoolean,
        Prop ''trackCount'' Mutable Required TNumber,
        Prop ''displayType'' Mutable Required TString,
        Prop ''createdDate'' Mutable Required TString,
        Prop ''subscriptionUrl'' Mutable Required TString]])]"

definition Activities :: decl where
  "Activities = Interface [] [TRef ''Resource''] [
    Prop ''type'' Mutable Required (TStrLit ''activities''),
    Prop ''attributes'' Mutable Required (TObj [
      Prop ''artwork'' Mutable Required (TRef ''Artwork''),
      Prop ''editorialNotes'' Mutable Optional (TRef ''EditorialNotes''),
      Prop ''name'' Mutable Required TString,
      Prop ''url'' Mutable Required TString]),
    Prop ''relationships'' Mutable Required
      (TObj [Prop ''playlists'' Mutable Required (TApp ''Relationship'' [TRef ''Playlists''])])]"

definition PersonalRecommendation :: decl where
  "PersonalRecommendation = Interface [] [TRef ''Resource''] [
    Prop ''type'' Mutable Required (TStrLit ''personal-recommendation''),
    Prop ''attributes'' Mutable Required (TObj [
      Prop ''kind'' Mutable Required (TUnion
        [TStrLit ''music-recommendations'', TStrLit ''recently-played'', TStrLit ''unknown'']),
      Prop ''nextUpdateDate'' Mutable Required TString,
      Prop ''reason'' Mutable Required (TObj [Prop ''stringForDisplay'' Mutable Required TString]),
      Prop ''resourceTypes'' Mutable Required (TArray TString),
      Prop ''title'' Mutable Required (TObj [Prop ''stringForDisplay'' Mutable Required TString]),
      Prop ''display'' Mutable Optional (TObj [
        Prop ''kind'' Mutable Required TString,
        Prop ''decorations'' Mutable Required (TArray TUnknown)])]),
    Prop ''relationships'' Mutable Optional (TObj [
      IndexSig ''k'' TString (TObj [
        Prop ''data'' Mutable Required (TArray (TRef ''Resource'')),
        Prop ''href'' Mutable Required TString])])]"

definition SocialProfile :: decl where
  "SocialProfile = Interface [] [TRef ''Resource''] [
    Prop ''type'' Mutable Required (TStrLit ''social-profiles''),
    Prop ''attributes'' Mutable Required (TObj [
      Prop ''artwork'' Mutable Required (TRef ''Artwork''),
      Prop ''handle'' Mutable Required TString,
      Prop ''isPrimary'' Mutable Required TBoolean,
      Prop ''isVerified'' Mutable Required TBoolean,
      Prop ''name'' Mutable Required TString,
      Prop ''url'' Mutable Required TString])]"

definition Groupings :: decl where
  "Groupings = Interface [] [TRef ''Resource''] [
    Prop ''type'' Mutable Required (TStrLit ''groupings''),
    Prop ''attributes'' Mutable Required (TObj [
      Prop ''genreNames'' Mutable Required (TArray TString),
      Prop ''name'' Mutable Required TString]),
    Prop ''relationships'' Mutable Optional (TInter [
      TObj [
        Prop ''curator'' Mutable Required (TApp ''Relationship'' [TRef ''Curators'']),
        Prop ''tabs'' Mutable Required (TApp ''Relationship'' [TRef ''EditorialElements''])],
      TApp ''Record'' [
        TString,
        TUnion [
          TApp ''Relationship'' [TRef ''Resource''],
          TApp ''Array'' [TApp ''Relationship'' [TRef ''Resource'']]]]])]"

definition Rooms :: decl where
  "Rooms = Interface [] [TRef ''Resource''] [Prop ''type'' Mutable Required (TStrLit ''rooms'')]"

definition EditorialElements :: decl where
  "EditorialElements = Interface [] [TRef ''Resource''] [
    Prop ''type'' Mutable Required (TStrLit ''editorial-elements''),
    Prop ''attributes'' Mutable Required (TObj [
      Prop ''name'' Mutable Optional TString,
      Prop ''title'' Mutable Optional TString,
      Prop ''editorialElementKind'' Mutable Required (TUnion [TString, TNumber]),
      Prop ''collectionId'' Mutable Optional TString,
      Prop ''emphasize'' Mutable Optional TBoolean,
      Prop ''featureFirstElement'' Mutable Optional TBoolean,
      Prop ''designBadge'' Mutable Optional (TUnion [
        TStrLit ''NEW ALBUM'',
        TStrLit ''UPDATED PLAYLIST'',
        TStrLit ''LISTEN NOW'',
        TStrLit ''NEW PLAYLIST'',
        TStrLit ''NEW RELEASE'',
        TString]),
      Prop ''displayStyle'' Mutable Optional (TUnion [TStrLit ''compact'', TStrLit ''expanded'']),
      Prop ''keySwoosh'' Mutable Optional
        (TUnion [TStrLit ''FeaturedPlaylists'', TStrLit ''ArtistsPlaylists'', TString]),
      Prop ''doNotFilter'' Mutable Optional TBoolean,
      Prop ''lastModifiedDate'' Mutable Optional TString,
      Prop ''links'' Mutable Optional (TArray (TObj [
        Prop ''label'' Mutable Required TString,
        Prop ''url'' Mutable Required TString,
        Prop ''target'' Mutable Optional (TUnion [TStrLit ''external'', TStrLit ''internal''])])),
      Prop ''type'' Mutable Optional (TStrLit ''normal''),
      Prop ''supportedSorts'' Mutable Optional (TArray TString),
      Prop ''description'' Mutable Optional TString]),
    Prop ''id'' Mutable Required (TUnion [TStrLit ''default'', TString]),
    Prop ''relationships'' Mutable Optional (TInter [
      TObj [
        Prop ''children'' Mutable Required (TApp ''Relationship'' [TRef ''EditorialElements'']),
        Prop ''contents'' Mutable Optional (TApp ''Relationship'' [TRef ''Resource'']),
        Prop ''room'' Mutable Optional (TApp ''Relationship'' [TRef ''Rooms''])],
      TApp ''Record'' [
        TString,
        TUnion [
          TApp ''Relationship'' [TRef ''Resource''],
          TApp ''Array'' [TApp ''Relationship'' [TRef ''Resource'']]]]])]"

definition EditorialItem :: decl where
  "EditorialItem = Interface [] [TRef ''Resource''] [
    Prop ''type'' Mutable Required (TStrLit ''editorial-items''),
    Prop ''attributes'' Mutable Required (TObj [
      Prop ''plainEditorialNotes'' Mutable Required (TRef ''EditorialNotes''),
      Prop ''plainEditorialCard'' Mutable Required (TRef ''PlainEditorialCard''),
      Prop ''editorialArtwork'' Mutable Required (TRef ''EditorialArtwork''),
      Prop ''editorialVideo'' Mutable Required (TRef ''EditorialVideo''),
      Prop ''link'' Mutable Required (TObj [
        Prop ''url'' Mutable Required TString,
        Prop ''target'' Mutable Required (TUnion [TStrLit ''internal'', TStrLit ''external'']),
        Prop ''feature'' Mutable Required (TUnion [TStrLit ''internal'', TStrLit ''external''])]),
      Prop ''url'' Mutable Required TString]),
    Prop ''meta'' Mutable Optional (TObj [Prop ''editorialCard'' Mutable Required TString])]"

definition PlainEditorialCard :: decl where
  "PlainEditorialCard = Interface [] [] [
    IndexSig ''key'' TString (TObj [
      Prop ''kind'' Mutable Required (TRef ''EditorialArtworkTypes''),
      Prop ''display'' Mutable Required (TObj
        [Prop ''decorations'' Mutable Required (TUnion [TStrLit ''gradient'', TArray TUnknown])]),
      Prop ''plainEditorialNotes'' Mutable Required (TRef ''EditorialNotes''),
      Prop ''editorialArtwork'' Mutable Required (TRef ''EditorialArtwork''),
      Prop ''editorialVideo'' Mutable Required (TRef ''EditorialVideo'')])]"

definition Lyrics :: decl where
  "Lyrics = Interface [] [TRef ''Resource''] [
    Prop ''type'' Mutable Required (TStrLit ''lyrics''),
    Prop ''attributes'' Mutable Required (TObj [
      Prop ''playParams'' Mutable Required (TRef ''PlayParameters''),
      Prop ''ttml'' Mutable Required TString])]"

definition Credit :: decl where
  "Credit = Interface [] [TRef ''Resource''] [
    Prop ''type'' Mutable Required (TStrLit ''role-categories''),
    Prop ''attributes'' Mutable Required (TObj [
      Prop ''kind'' Mutable Required (TUnion [
        TStrLit ''performer'',
        TStrLit ''composer-and-lyrics'',
        TStrLit ''production-and-engineering'',
        TString]),
      Prop ''title'' Mutable Required TString]),
    Prop ''relationships'' Mutable Optional (TInter [
      TObj [
        Prop ''credit-artists'' Mutable Required (TApp ''Relationship'' [TRef ''CreditArtist''])],
      TApp ''Record'' [
        TString,
        TUnion [
          TApp ''Relationship'' [TRef ''Resource''],
          TApp ''Array'' [TApp ''Relationship'' [TRef ''Resource'']]]]])]"

definition CreditArtist :: decl where
  "CreditArtist = Interface [] [TRef ''Resource''] [
    Prop ''type'' Mutable Required (TStrLit ''credit-artists''),
    Prop ''attributes'' Mutable Required (TObj [
      Prop ''name'' Mutable Required TString,
      Prop ''roleNames'' Mutable Required (TArray TString),
      Prop ''artwork'' Mutable Required (TRef ''Artwork'')])]"

definition Rating :: decl where
  "Rating = Interface [] [TRef ''Resource''] [
    Prop ''type'' Mutable Required (TStrLit ''ratings''),
    Prop ''attributes'' Mutable Required (TObj [Prop ''value'' Mutable Required TNumber])]"

definition AudioAnalysis :: decl where
  "AudioAnalysis = Interface [] [TRef ''Resource''] [
    Prop ''type'' Mutable Required (TStrLit ''audio-analysis''),
    Prop ''attributes'' Mutable Required (TObj [
      Prop ''acousticness'' Mutable Required (TObj [
        Prop ''beginning'' Mutable Required TNumber,
        Prop ''ending'' Mutable Required TNumber,
        Prop ''main'' Mutable Required TNumber]),
      Prop ''beats'' Mutable Required (TObj [
        Prop ''barsInMilliseconds'' Mutable Required (TArray TNumber),
        Prop ''beatsInMilliseconds'' Mutable Required (TArray TNumber)]),
      Prop ''bpm'' Mutable Required (TObj [
        Prop ''beginning'' Mutable Required TNumber,
        Prop ''ending'' Mutable Required TNumber,
        Prop ''main'' Mutable Required TNumber,
        Prop ''percentDeviation'' Mutable Required TNumber]),
      Prop ''danceability'' Mutable Required (TObj [
        Prop ''beginning'' Mutable Required TNumber,
        Prop ''ending'' Mutable Required TNumber,
        Prop ''main'' Mutable Required TNumber]),
      Prop ''energy'' Mutable Required (TObj [
        Prop ''beginning'' Mutable Required TNumber,
        Prop ''ending'' Mutable Required TNumber,
        Prop ''main'' Mutable Required TNumber]),
      Prop ''key'' Mutable Required (TObj [
        Prop ''beginning'' Mutable Required (TObj
          [Prop ''tonic'' Mutable Required TString, Prop ''mode'' Mutable Required TString]),
        Prop ''ending'' Mutable Required (TObj
          [Prop ''tonic'' Mutable Required TString, Prop ''mode'' Mutable Required TString]),
        Prop ''main'' Mutable Required (TObj
          [Prop ''tonic'' Mutable Required TString, Prop ''mode'' Mutable Required TString])]),
      Prop ''loudness'' Mutable Required (TObj [
        Prop ''beginning'' Mutable Required (TObj [
          Prop ''peak'' Mutable Required TNumber,
          Prop ''range'' Mutable Required TNumber,
          Prop ''value'' Mutable Required TNumber]),
        Prop ''ending'' Mutable Required (TObj [
          Prop ''peak'' Mutable Required TNumber,
          Prop ''range'' Mutable Required TNumber,
          Prop ''value'' Mutable Required TNumber]),
        Prop ''main'' Mutable Required (TObj [
          Prop ''peak'' Mutable Required TNumber,
          Prop ''range'' Mutable Required TNumber,
          Prop ''value'' Mutable Required TNumber])]),
      Prop ''melodicness'' Mutable Required (TObj [
        Prop ''beginning'' Mutable Required TNumber,
        Prop ''ending'' Mutable Required TNumber,
        Prop ''main'' Mutable Required TNumber]),
      Prop ''valence'' Mutable Required (TObj [
        Prop ''beginning'' Mutable Required TNumber,
        Prop ''ending'' Mutable Required TNumber,
        Prop ''main'' Mutable Required TNumber])])]"

definition ReplaySummary :: decl where
  "ReplaySummary = Interface [] [TRef ''Resource''] [
    Prop ''type'' Mutable Required (TStrLit ''music-summaries''),
    Prop ''attributes'' Mutable Required (TObj [
      Prop ''period'' Mutable Required (TUnion [TStrLit ''year'', TStrLit ''month'']),
      Prop ''year'' Mutable Required TNumber,
      Prop ''month'' Mutable Optional TNumber,
      Prop ''topSongCount'' Mutable Required TNumber,
      Prop ''listenTimeInMinutes'' Mutable Required TNumber,
      Prop ''uniqueStationCount'' Mutable Required TNumber,
      Prop ''uniqueGenreCount'' Mutable Required TNumber,
      Prop ''uniqueAlbumCount'' Mutable Required TNumber,
      Prop ''uniqueArtistCount'' Mutable Required TNumber,
      Prop ''uniquePlaylistCount'' Mutable Required TNumber,
      Prop ''uniqueSongCount'' Mutable Required TNumber]),
    Prop ''topGenres'' Mutable Required (TArray
      (TObj [Prop ''genre'' Mutable Required TString, Prop ''count'' Mutable Required TNumber])),
    Prop ''views'' Mutable Required (TObj [
      Prop ''top-albums'' Mutable Required (TApp ''Relationship'' [TRef ''ReplayItemSummary'']),
      Prop ''top-artists'' Mutable Required (TApp ''Relationship'' [TRef ''ReplayItemSummary'']),
      Prop ''top-songs'' Mutable Required (TApp ''Relationship'' [TRef ''ReplayItemSummary''])]),
    Prop ''relationships'' Mutable Required
      (TObj [Prop ''playlist'' Mutable Optional (TApp ''Relationship'' [TRef ''Playlists''])])]"

definition ReplayMilestone :: decl where
  "ReplayMilestone = Interface [] [TRef ''Resource''] [
    Prop ''type'' Mutable Required (TStrLit ''music-summaries-milestones''),
    Prop ''attributes'' Mutable Required (TObj [
      Prop ''listenTimeInMinutes'' Mutable Required TNumber,
      Prop ''dateReached'' Mutable Required TString,
      Prop ''value'' Mutable Required TNumber,
      Prop ''kind'' Mutable Required
        (TUnion [TStrLit ''listen-time'', TStrLit ''artist'', TStrLit ''song''])]),
    Prop ''relationships'' Mutable Required (TObj [
      Prop ''top-albums'' Mutable Required (TApp ''Relationship'' [TRef ''Albums'']),
      Prop ''top-artists'' Mutable Required (TApp ''Relationship'' [TRef ''Artists'']),
      Prop ''top-songs'' Mutable Required (TApp ''Relationship'' [TRef ''Songs''])])]"

definition ReplayItemSummary :: decl where
  "ReplayItemSummary = Interface [] [TRef ''Resource''] [
    Prop ''type'' Mutable Required (TUnion [
      TStrLit ''song-period-summaries'',
      TStrLit ''artist-period-summaries'',
      TStrLit ''album-period-summaries'']),
    Prop ''attributes'' Mutable Required (TObj [
      Prop ''firstPlayed'' Mutable Required TString,
      Prop ''lastPlayed'' Mutable Required TString,
      Prop ''playCount'' Mutable Required TNumber,
      Prop ''listenTimeInMinutes'' Mutable Optional TNumber]),
    Prop ''relationships'' Mutable Optional (TInter [
      TObj [
        Prop ''song'' Mutable Optional (TApp ''Relationship'' [TRef ''Songs'']),
        Prop ''artist'' Mutable Optional (TApp ''Relationship'' [TRef ''Artists'']),
        Prop ''album'' Mutable Optional (TApp ''Relationship'' [TRef ''Albums''])],
      TApp ''Record'' [
        TString,
        TUnion [
          TApp ''Relationship'' [TRef ''Resource''],
          TApp ''Array'' [TApp ''Relationship'' [TRef ''Resource'']]]]])]"

definition Suggestion :: decl where
  "Suggestion = Interface [] [] [
    Prop ''displayTerm'' Mutable Optional TString,
    Prop ''kind'' Mutable Required (TUnion [TStrLit ''terms'', TStrLit ''topResults'']),
    Prop ''searchTerm'' Mutable Optional TString,
    Prop ''source'' Mutable Optional TString,
    Prop ''content'' Mutable Optional (TRef ''MusicKit.Resource'')]"

definition EditorialNotes :: decl where
  "EditorialNotes = Interface [] [] [
    Prop ''hashValue'' Mutable Optional TNumber,
    Prop ''name'' Mutable Optional TString,
    Prop ''short'' Mutable Optional TString,
    Prop ''standard'' Mutable Optional TString,
    Prop ''tagline'' Mutable Optional TString]"

definition Artwork :: decl where
  "Artwork = Interface [] [] [
    Prop ''bgColor'' Mutable Required TString,
    Prop ''height'' Mutable Required TNumber,
    Prop ''width'' Mutable Required TNumber,
    Prop ''textColor1'' Mutable Required TString,
    Prop ''textColor2'' Mutable Required TString,
    Prop ''textColor3'' Mutable Required TString,
    Prop ''textColor4'' Mutable Required TString,
    Prop ''url'' Mutable Required TString,
    Prop ''hasP3'' Mutable Optional TBoolean]"

definition ArtworkKinds :: decl where
  "ArtworkKinds = Alias
    (TUnion [TStrLit ''cc'', TStrLit ''sr'', TStrLit ''bb'', TStrLit ''br'', TStrLit ''vf''])"

definition ArtworkFormats :: decl where
  "ArtworkFormats = Alias (TUnion [
    TStrLit ''jpg'',
    TStrLit ''jpeg'',
    TStrLit ''png'',
    TStrLit ''webp'',
    TStrLit ''tiff'',
    TStrLit ''svg''])"

definition EditorialArtworkTypes :: decl where
  "EditorialArtworkTypes = Alias (TUnion [
    TStrLit ''superHeroTall'',
    TStrLit ''superHeroWide'',
    TStrLit ''storeFlowcase'',
    TStrLit ''subscriptionHero'',
    TStrLit ''subscriptionCover'',
    TStrLit ''staticDetailSquare'',
    TStrLit ''staticDetailTall'',
    TStrLit ''brandLogo''])"

definition EditorialArtwork :: decl where
  "EditorialArtwork = Alias
    (TMapped ''key'' (TRef ''EditorialArtworkTypes'') Keep (TRef ''Artwork''))"

definition EditorialVideoTypes :: decl where
  "EditorialVideoTypes = Alias (TUnion [
    TStrLit ''motionSquareVideo1x1'',
    TStrLit ''motionTallVideo3x4'',
    TStrLit ''motionWideVideo21x9'',
    TStrLit ''motionDetailTall'',
    TStrLit ''motionDetailSquare''])"

definition Video :: decl where
  "Video = Interface [] [] [
    Prop ''previewFrame'' Mutable Required (TRef ''Artwork''),
    Prop ''video'' Mutable Required TString]"

definition EditorialVideo :: decl where
  "EditorialVideo = Alias (TMapped ''key'' (TRef ''EditorialVideoTypes'') Keep (TRef ''Video''))"

definition Preview :: decl where
  "Preview = Interface [] [] [
    Prop ''artwork'' Mutable Required (TRef ''Artwork''),
    Prop ''url'' Mutable Required TString,
    Prop ''hlsUrl'' Mutable Required TString]"

definition DescriptionAttribute :: decl where
  "DescriptionAttribute = Interface [] [] [
    Prop ''short'' Mutable Required TString,
    Prop ''standard'' Mutable Required TString,
    Prop ''long'' Mutable Optional TString]"

definition SearchResult :: decl where
  "SearchResult = Interface [TParam ''T'' None None] [] [
    Prop ''data'' Mutable Required (TArray (TVar ''T'')),
    Prop ''href'' Mutable Optional TString,
    Prop ''next'' Mutable Optional TString]"

definition SearchChartResult :: decl where
  "SearchChartResult = Interface [TParam ''T'' None None] [] [
    Prop ''chart'' Mutable Required TString,
    Prop ''data'' Mutable Required (TArray (TVar ''T'')),
    Prop ''href'' Mutable Optional TString,
    Prop ''name'' Mutable Required TString,
    Prop ''next'' Mutable Optional TString]"

definition QueryParameters :: decl where
  "QueryParameters = Alias (TApp ''Record'' [TString, TAny])"

definition QueryOptions :: decl where
  "QueryOptions = Alias (TObj [
    Prop ''includeResponseMeta'' Mutable Optional TBoolean,
    Prop ''fetchOptions'' Mutable Optional (TRef ''RequestInit'')])"

definition v3MusicRoutes :: decl where
  "v3MusicRoutes = Interface [] [] [
    Prop ''v1/me/library/songs'' Mutable Required (TArray (TRef ''MusicKit.Songs'')),
    Prop ''v1/me/library/songs/*'' Mutable Required (TArray (TRef ''MusicKit.Songs'')),
    Prop ''v1/me/library/albums'' Mutable Required (TArray (TRef ''MusicKit.Albums'')),
    Prop ''v1/me/library/artists'' Mutable Required (TArray (TRef ''MusicKit.Artists'')),
    Prop ''/v1/me/recent/played'' Mutable Required
      (TUnion [TArray (TRef ''MusicKit.Songs''), TArray (TRef ''MusicKit.Albums'')]),
    Prop ''v1/me/library/playlists'' Mutable Required (TArray (TRef ''MusicKit.Playlists'')),
    Prop ''v1/me/library/playlists/*'' Mutable Required (TArray (TRef ''MusicKit.Playlists'')),
    Prop ''v1/me/library/search'' Mutable Required (TUnion [
      TArray (TRef ''MusicKit.Songs''),
      TArray (TRef ''MusicKit.Albums''),
      TArray (TRef ''MusicKit.Artists''),
      TArray (TRef ''MusicKit.Playlists'')]),
    Prop ''v1/storefronts'' Mutable Required (TArray (TRef ''MusicKit.Storefronts'')),
    Prop ''v1/me/rating/songs'' Mutable Required (TArray (TRef ''MusicKit.Rating'')),
    Prop ''v1/me/rating/albums'' Mutable Required (TArray (TRef ''MusicKit.Rating'')),
    Prop ''v1/me/rating/playlists'' Mutable Required (TArray (TRef ''MusicKit.Rating'')),
    Prop ''am/groupings'' Mutable Required (TArray (TRef ''MusicKit.Groupings''))]"

definition QueryResources :: decl where
  "QueryResources = Alias (TMapped ''K'' (TKeyof (TRef ''MusicKit.ResourceMap'')) MakeOptional
    (TObj [IndexSig ''id'' TString (TIndex (TRef ''MusicKit.ResourceMap'') (TVar ''K''))]))"

definition ResourceTypes :: decl where
  "ResourceTypes = Alias (TKeyof (TRef ''ResourceMap''))"

definition QueryResponse :: decl where
  "QueryResponse = Interface [TParam ''T'' None (Some TUnknown)] [] [
    Prop ''data'' Mutable Required (TObj [
      Prop ''data'' Mutable Required (TVar ''T''),
      Prop ''resources'' Mutable Required (TRef ''QueryResources''),
      Prop ''results'' Mutable Required (TRef ''QueryResult''),
      Prop ''next'' Mutable Required TString,
      Prop ''meta'' Mutable Required (TObj [
        Prop ''total'' Mutable Required TNumber,
        Prop ''latestYear'' Mutable Required TNumber,
        Prop ''isEndOfYear'' Mutable Required TBoolean,
        Prop ''metrics'' Mutable Optional (TObj [Prop ''dataSetId'' Mutable Required TString])])]),
    Prop ''request'' Mutable Required TUnknown,
    Prop ''response'' Mutable Required TUnknown]"

definition QueryResult :: decl where
  "QueryResult = Interface [] [] [
    Prop ''target'' Mutable Optional TString,
    Prop ''activities'' Mutable Optional (TApp ''SearchResult'' [TRef ''Activities'']),
    Prop ''albums'' Mutable Optional (TApp ''SearchResult'' [TRef ''Albums'']),
    Prop ''apple-curators'' Mutable Optional (TApp ''SearchResult'' [TRef ''AppleCurators'']),
    Prop ''artists'' Mutable Optional (TApp ''SearchResult'' [TRef ''Artists'']),
    Prop ''curators'' Mutable Optional (TApp ''SearchResult'' [TRef ''Curators'']),
    Prop ''music-videos'' Mutable Optional (TApp ''SearchResult'' [TRef ''MusicVideos'']),
    Prop ''playlists'' Mutable Optional (TApp ''SearchResult'' [TRef ''Playlists'']),
    Prop ''record-labels'' Mutable Optional (TApp ''SearchResult'' [TRef ''RecordLabels'']),
    Prop ''stations'' Mutable Optional (TApp ''SearchResult'' [TRef ''Stations'']),
    Prop ''songs'' Mutable Optional (TApp ''SearchResult'' [TRef ''Songs'']),
    Prop ''badgingMap'' Mutable Optional (TApp ''SearchResult'' [TUnknown]),
    Prop ''suggestions'' Mutable Optional (TArray (TRef ''Suggestion'')),
    Prop ''top'' Mutable Optional (TObj [
      Prop ''data'' Mutable Required (TApp ''Array'' [
        TUnion [
          TRef ''Activities'',
          TRef ''Albums'',
          TRef ''AppleCurators'',
          TRef ''Artists'',
          TRef ''Curators'',
          TRef ''MusicVideos'',
          TRef ''Playlists'',
          TRef ''RecordLabels'',
          TRef ''Songs'',
          TRef ''Stations'']])])]"

definition API :: decl where
  "API = Interface [] [] [
    Method ''music'' [TParam ''T'' (Some (TKeyof (TRef ''v3MusicRoutes''))) None] [
      Param ''route'' Required (TUnion [TVar ''T'', TString]),
      Param ''parameters'' Optional (TRef ''QueryParameters''),
      Param ''options'' Optional (TRef ''QueryOptions'')]
      (TApp ''Promise''
        [TApp ''QueryResponse'' [TUnion [TIndex (TRef ''v3MusicRoutes'') (TVar ''T''), TAny]]]),
    Prop ''storefrontId'' Mutable Required TString]"

subsection \<open>The declarations of MusicKit.Events.d.ts\<close>

definition Events :: decl where
  "Events = Interface [] [] [
    Prop ''authorizationStatusDidChange'' Mutable Required
      (TObj [Prop ''authorizationStatus'' Mutable Required (TRef ''AuthStatus'')]),
    Prop ''authorizationStatusWillChange'' Mutable Required TUnknown,
    Prop ''eligibleForSubscribeView'' Mutable Required TUnknown,
    Prop ''loaded'' Mutable Required TUnknown,
    Prop ''mediaCanPlay'' Mutable Required TUnknown,
    Prop ''mediaItemStateDidChange'' Mutable Required (TRef ''MediaItem''),
    Prop ''mediaItemStateWillChange'' Mutable Required (TRef ''MediaItem''),
    Prop ''mediaPlaybackError'' Mutable Required
      (TObj [Prop ''message'' Mutable Required TString]),
    Prop ''metadataDidChange'' Mutable Required TUnknown,
    Prop ''playbackBitrateDidChange'' Mutable Required
      (TObj [Prop ''bitrate'' Mutable Required TNumber]),
    Prop ''playbackDurationDidChange'' Mutable Required TUnknown,
    Prop ''bufferedProgressDidChange'' Mutable Required
      (TObj [Prop ''progress'' Mutable Required TNumber]),
    Prop ''playbackProgressDidChange'' Mutable Required
      (TObj [Prop ''progress'' Mutable Required TNumber]),
    Prop ''playbackStateDidChange'' Mutable Required (TObj [
      Prop ''nowPlayingItem'' Mutable Required (TRef ''MusicKit.MediaItem''),
      Prop ''oldState'' Mutable Required (TRef ''PlaybackStates''),
      Prop ''state'' Mutable Required (TRef ''PlaybackStates'')]),
    Prop ''playbackStateWillChange'' Mutable Required (TObj [
      Prop ''nowPlayingItem'' Mutable Required (TRef ''MusicKit.MediaItem''),
      Prop ''oldState'' Mutable Required (TRef ''PlaybackStates''),
      Prop ''state'' Mutable Required (TRef ''PlaybackStates'')]),
    Prop ''playbackTargetAvailableDidChange'' Mutable Required TUnknown,
    Prop ''playbackTimeDidChange'' Mutable Required (TObj [
      Prop ''currentPlaybackDuration'' Mutable Required TNumber,
      Prop ''currentPlaybackTime'' Mutable Required TNumber,
      Prop ''currentPlaybackTimeRemaining'' Mutable Required TNumber]),
    Prop ''playbackVolumeDidChange'' Mutable Required (TRef ''Event''),
    Prop ''primaryPlayerDidChange'' Mutable Required TUnknown,
    Prop ''queueItemsDidChange'' Mutable Required (TArray (TRef ''MediaItem'')),
    Prop ''queuePositionDidChange'' Mutable Required (TObj [
      Prop ''oldPosition'' Mutable Required TNumber,
      Prop ''position'' Mutable Required TNumber]),
    Prop ''storefrontCountryCodeDidChange'' Mutable Required TUnknown,
    Prop ''storefrontIdentifierDidChange'' Mutable Required TUnknown,
    Prop ''userTokenDidChange'' Mutable Required
      (TObj [Prop ''userToken'' Mutable Required TString]),
    Prop ''nowPlayingItemDidChange'' Mutable Required
      (TObj [Prop ''item'' Mutable Required (TRef ''MediaItem'')]),
    Prop ''repeatModeDidChange'' Mutable Required (TRef ''PlayerRepeatMode''),
    Prop ''shuffleModeDidChange'' Mutable Required (TRef ''PlayerShuffleMode''),
    Prop ''autoplayEnabledDidChange'' Mutable Required TBoolean,
    Prop ''timedMetadataDidChange'' Mutable Required (TObj [
      Prop ''album'' Mutable Required TString,
      Prop ''blob'' Mutable Required (TRef ''Blob''),
      Prop ''links'' Mutable Required (TArray (TObj
        [Prop ''description'' Mutable Required TString, Prop ''url'' Mutable Required TString])),
      Prop ''performer'' Mutable Required TString,
      Prop ''storefrontAdamIds'' Mutable Required (TObj [IndexSig ''id'' TString TString]),
      Prop ''title'' Mutable Required TString]),
    Prop ''mediaElementCreated'' Mutable Required
      (TObj [Prop ''mediaElement'' Mutable Required TUnknown])]"

subsection \<open>The class MKError\<close>

definition MKError :: decl where
  "MKError = Class [TRef ''Error''] [
    Prop ''errorCode'' Mutable Required TString,
    Prop ''description'' Mutable Optional (TUnion [TString, TUndefined])]
    [
      Prop ''ACCESS_DENIED'' Mutable Required TString,
      Prop ''AUTHORIZATION_ERROR'' Mutable Required TString,
      Prop ''CONFIGURATION_ERROR'' Mutable Required TString,
      Prop ''CONTENT_RESTRICTED'' Mutable Required TString,
      Prop ''INVALID_ARGUMENTS'' Mutable Required TString,
      Prop ''MEDIA_CERTIFICATE'' Mutable Required TString,
      Prop ''MEDIA_DESCRIPTOR'' Mutable Required TString,
      Prop ''MEDIA_KEY'' Mutable Required TString,
      Prop ''MEDIA_LICENSE'' Mutable Required TString,
      Prop ''MEDIA_PLAYBACK'' Mutable Required TString,
      Prop ''MEDIA_SESSION'' Mutable Required TString,
      Prop ''NETWORK_ERROR'' Mutable Required TString,
      Prop ''NOT_FOUND'' Mutable Required TString,
      Prop ''QUOTA_EXCEEDED'' Mutable Required TString,
      Prop ''SERVER_ERROR'' Mutable Required TString,
      Prop ''SERVICE_UNAVAILABLE'' Mutable Required TString,
      Prop ''SUBSCRIPTION_ERROR'' Mutable Required TString,
      Prop ''UNKNOWN_ERROR'' Mutable Required TString,
      Prop ''UNSUPPORTED_ERROR'' Mutable Required TString]"

subsection \<open>The declarations of MusicKit.MusicKitInstance.d.ts\<close>

definition MusicKitInstance :: decl where
  "MusicKitInstance = Interface [] [TRef ''Player''] [
    Prop ''capabilities'' Mutable Required TAny,
    Prop ''api'' Readonly Required (TRef ''API''),
    Prop ''bitrate'' Readonly Required (TRef ''PlaybackBitrate''),
    Prop ''developerToken'' Readonly Required TString,
    Prop ''isAuthorized'' Readonly Required TBoolean,
    Prop ''musicUserToken'' Readonly Required TString,
    Prop ''playbackState'' Readonly Required (TRef ''PlaybackStates''),
    Prop ''playbackTargetAvailable'' Readonly Required TBoolean,
    Prop ''player'' Readonly Required (TRef ''Player''),
    Prop ''storefrontId'' Readonly Required TString,
    Prop ''storefrontCountryCode'' Readonly Required TString,
    Prop ''privateEnabled'' Mutable Required TBoolean,
    Prop ''volume'' Mutable Required TNumber,
    Prop ''autoplayEnabled'' Mutable Required TBoolean,
    Prop ''playbackRate'' Mutable Required TNumber,
    Prop ''currentPlaybackProgress'' Mutable Required TNumber,
    Method ''addEventListener'' [TParam ''K'' (Some (TKeyof (TRef ''MusicKit.Events''))) None] [
      Param ''name'' Required (TVar ''K''),
      Param ''callback'' Required
        (TFun [Param ''event'' Required (TIndex (TRef ''MusicKit.Events'') (TVar ''K''))] TVoid)]
      TVoid,
    Method ''addToLibrary'' [] [Param ''id'' Required TString, Param ''type'' Optional TString]
      (TApp ''Promise'' [TObj [IndexSig ''type'' TString (TArray TString)]]),
    Method ''authorize'' [] [] (TApp ''Promise'' [TString]),
    Method ''changeToMediaAtIndex'' [] [Param ''index'' Required TNumber]
      (TApp ''Promise'' [TNumber]),
    Method ''pause'' [] [] TVoid,
    Method ''play'' [] [] (TApp ''Promise'' [TRef ''MediaItemPosition'']),
    Method ''playLater'' [] [Param ''options'' Required (TRef ''SetQueueOptions'')]
      (TApp ''Promise'' [TVoid]),
    Method ''playNext'' [] [Param ''options'' Required (TRef ''SetQueueOptions'')]
      (TApp ''Promise'' [TVoid]),
    Method ''removeEventListener''
      [TParam ''K'' (Some (TKeyof (TRef ''MusicKit.Events''))) None]
      [
        Param ''name'' Required (TVar ''K''),
        Param ''callback'' Optional (TFun
          [Param ''event'' Required (TIndex (TRef ''MusicKit.Events'') (TVar ''K''))]
          TVoid)]
      TVoid,
    Method ''seekToTime'' [] [Param ''time'' Required TNumber] (TApp ''Promise'' [TAny]),
    Method ''setQueue'' [] [Param ''options'' Required (TRef ''SetQueueOptions'')]
      (TApp ''Promise'' [TRef ''Queue'']),
    Prop ''queue'' Mutable Required (TRef ''Queue''),
    Method ''clearQueue'' [] [] TVoid,
    Method ''skipToNextItem'' [] [] (TApp ''Promise'' [TRef ''MediaItemPosition'']),
    Method ''skipToPreviousItem'' [] [] (TApp ''Promise'' [TRef ''MediaItemPosition'']),
    Method ''stop'' [] [] TVoid,
    Method ''unauthorize'' [] [] (TApp ''Promise'' [TAny]),
    Prop ''videoContainerElement'' Mutable Required (TRef ''HTMLDivElement''),
    Method ''savePlaybackState'' [] [] TVoid,
    Method ''restorePlaybackState'' [] [] TVoid,
    Prop ''_previousPlaybackState'' Mutable Required (TObj [
      Prop ''autoplayEnabled'' Mutable Required TBoolean,
      Prop ''playbackMode'' Mutable Required TNumber,
      Prop ''repeatMode'' Mutable Required TNumber,
      Prop ''shuffleMode'' Mutable Required TNumber,
      Prop ''volume'' Mutable Required TNumber]),
    Prop ''services'' Mutable Optional TAny,
    Prop ''previewOnly'' Mutable Optional TBoolean,
    Prop ''_bag'' Mutable Required TAny]"

subsection \<open>The player declarations, second part of MusicKit.MusicKitInstance.d.ts\<close>

definition PlaybackStates :: decl where
  "PlaybackStates = Enum [
    (''none'', None),
    (''loading'', None),
    (''playing'', None),
    (''paused'', None),
    (''stopped'', None),
    (''ended'', None),
    (''seeking'', None),
    (''waiting'', None),
    (''stalled'', None),
    (''completed'', None)]"

definition PlaybackBitrate :: decl where
  "PlaybackBitrate = Enum [(''HIGH'', Some 256), (''STANDARD'', Some 64)]"

definition PlayerRepeatMode :: decl where
  "PlayerRepeatMode = Alias (TUnion [TNumLit 0, TNumLit 1, TNumLit 2])"

definition PlayerShuffleMode :: decl where
  "PlayerShuffleMode = Alias (TUnion [TNumLit 0, TNumLit 1])"

definition MediaItemPosition :: decl where
  "MediaItemPosition = Alias TNumber"

definition MediaItemAsset :: decl where
  "MediaItemAsset = Interface [] [] [
    Prop ''URL'' Mutable Required TString,
    Prop ''artworkURL'' Mutable Required TString,
    Prop ''chunks'' Mutable Required (TObj [
      Prop ''chunkSize'' Mutable Required TNumber,
      Prop ''hashes'' Mutable Required (TArray TString)]),
    Prop ''downloadKey'' Mutable Required TString,
    Prop ''file-size'' Mutable Required TNumber,
    Prop ''flavor'' Mutable Required (TUnion [
      TStrLit ''30:cbcp256'',
      TStrLit ''34:cbcp64'',
      TStrLit ''28:ctrp256'',
      TStrLit ''32:ctrp64'',
      TStrLit ''37:ibhp256'',
      TStrLit ''38:ibhp64'']),
    Prop ''md5'' Mutable Required TString,
    Prop ''metadata'' Mutable Required (TObj [
      Prop ''composerId'' Mutable Required TString,
      Prop ''genreId'' Mutable Required TString,
      Prop ''copyright'' Mutable Required TString])]"

definition Container :: decl where
  "Container = Interface [] [] [
    Prop ''id'' Mutable Required TString,
    Prop ''type'' Mutable Required TString,
    Prop ''href'' Mutable Optional TString,
    Prop ''name'' Mutable Optional TString,
    Prop ''attributes'' Mutable Optional (TApp ''Record'' [TString, TAny])]"

definition Context :: decl where
  "Context = Interface [] [] [Prop ''featureName'' Mutable Required TString]"

definition Player :: decl where
  "Player = Interface [] [] [
    Prop ''bitrate'' Readonly Required TNumber,
    Prop ''canSupportDRM'' Readonly Required TBoolean,
    Prop ''currentPlaybackDuration'' Readonly Required TNumber,
    Prop ''currentPlaybackProgress'' Readonly Required TNumber,
    Prop ''currentPlaybackTime'' Readonly Required TNumber,
    Prop ''currentPlaybackTimeRemaining'' Readonly Required TNumber,
    Prop ''formattedCurrentPlaybackDuration'' Readonly Required
      (TRef ''FormattedPlaybackDuration''),
    Prop ''isPlaying'' Readonly Required TBoolean,
    Prop ''nowPlayingItem'' Readonly Required (TInter [
      TRef ''MediaItem'',
      TObj [
        Prop ''assets'' Mutable Required (TArray (TRef ''MediaItemAsset'')),
        Prop ''container'' Mutable Required (TRef ''Container''),
        Prop ''context'' Mutable Required (TRef ''Context'')]]),
    Prop ''nowPlayingItemIndex'' Readonly Optional (TUnion [TNumber, TUndefined]),
    Prop ''playbackRate'' Readonly Required TNumber,
    Prop ''playbackState'' Readonly Required (TRef ''PlaybackStates''),
    Prop ''playbackTargetAvailable'' Readonly Optional (TUnion [TBoolean, TUndefined]),
    Prop ''queue'' Readonly Required (TRef ''Queue''),
    Prop ''repeatMode'' Mutable Required (TRef ''PlayerRepeatMode''),
    Prop ''shuffleMode'' Mutable Required (TRef ''PlayerShuffleMode''),
    Prop ''volume'' Mutable Required TNumber,
    Method ''addEventListener'' []
      [Param ''name'' Required TString, Param ''callback'' Required (TFun [] TAny)]
      TVoid,
    Method ''changeToMediaAtIndex'' [] [Param ''index'' Required TNumber]
      (TApp ''Promise'' [TRef ''MediaItemPosition'']),
    Method ''changeToMediaItem'' [] [Param ''descriptor'' Required (TRef ''Descriptor'')]
      (TApp ''Promise'' [TRef ''MediaItemPosition'']),
    Method ''mute'' [] [] TVoid,
    Method ''pause'' [] [] TVoid,
    Method ''play'' [] [] (TApp ''Promise'' [TRef ''MediaItemPosition'']),
    Method ''prepareToPlay'' [] [Param ''descriptor'' Required (TRef ''Descriptor'')]
      (TApp ''Promise'' [TVoid]),
    Method ''removeEventListener'' []
      [Param ''name'' Required TString, Param ''callback'' Required (TFun [] TAny)]
      TVoid,
    Method ''seekToTime'' [] [Param ''time'' Required TNumber] (TApp ''Promise'' [TVoid]),
    Method ''showPlaybackTargetPicker'' [] [] TVoid,
    Method ''skipToNextItem'' [] [] (TApp ''Promise'' [TRef ''MediaItemPosition'']),
    Method ''skipToPreviousItem'' [] [] (TApp ''Promise'' [TRef ''MediaItemPosition'']),
    Method ''stop'' [] [] TVoid]"

subsection \<open>The declarations of MusicKit.Queue.d.ts\<close>

definition Queue :: decl where
  "Queue = Interface [] [] [
    Prop ''isEmpty'' Readonly Required TBoolean,
    Prop ''items'' Mutable Required (TArray (TRef ''MediaItem'')),
    Prop ''length'' Readonly Required TNumber,
    Prop ''nextPlayableItem'' Readonly Optional (TUnion [TRef ''MediaItem'', TUndefined]),
    Prop ''nextPlayableItemIndex'' Readonly Required TNumber,
    Prop ''position'' Readonly Required TNumber,
    Prop ''previousPlayableItem'' Readonly Optional (TUnion [TRef ''MediaItem'', TUndefined]),
    Prop ''previousPlayableItemIndex'' Readonly Required TNumber,
    Prop ''hasAutoplayStation'' Readonly Required TBoolean,
    Prop ''_queueItems'' Mutable Required (TApp ''Array'' [
      TObj [
        Prop ''isAutoplay'' Mutable Required TBoolean,
        Prop ''item'' Mutable Required (TRef ''MediaItem'')]]),
    Method ''_reindex'' [] [] TVoid,
    Method ''addEventListener'' []
      [Param ''name'' Required TString, Param ''callback'' Required (TFun [] TAny)]
      TVoid,
    Method ''append'' [] [Param ''descriptor'' Required (TRef ''Descriptor'')] TVoid,
    Method ''indexForItem'' [] [Param ''descriptor'' Required (TRef ''Descriptor'')] TNumber,
    Method ''item'' [] [Param ''index'' Required TNumber]
      (TUnion [TRef ''MediaItem'', TNull, TUndefined]),
    Method ''prepend'' [] [Param ''descriptor'' Required TAny] TVoid,
    Method ''removeEventListener'' []
      [Param ''name'' Required TString, Param ''callback'' Required (TFun [] TAny)]
      TVoid]"

subsection \<open>The declarations of MusicKit.SetQueueOptions.d.ts\<close>

definition SetQueueOptions :: decl where
  "SetQueueOptions = Interface [] [] [
    Prop ''album'' Mutable Optional (TUnion [TString, TUndefined]),
    Prop ''items'' Mutable Optional (TUnion [TArray (TRef ''Descriptor''), TUndefined]),
    Prop ''parameters'' Mutable Optional (TUnion [TRef ''QueryParameters'', TUndefined]),
    Prop ''playlist'' Mutable Optional (TUnion [TString, TUndefined]),
    Prop ''song'' Mutable Optional (TUnion [TString, TUndefined]),
    Prop ''songs'' Mutable Optional (TUnion [TArray TString, TUndefined]),
    Prop ''musicVideos'' Mutable Optional (TUnion [TArray TString, TUndefined]),
    Prop ''station'' Mutable Optional (TUnion [TString, TUndefined]),
    Prop ''startPosition'' Mutable Optional (TUnion [TNumber, TUndefined]),
    Prop ''url'' Mutable Optional (TUnion [TString, TUndefined])]"

definition MusicKit :: "(string \<times> decl) list" where
  "MusicKit = [
    (''AppConfiguration'', AppConfiguration),
    (''FormattedPlaybackDuration'', FormattedPlaybackDuration),
    (''EmbedOptions'', EmbedOptions),
    (''errors'', errors),
    (''version'', version),
    (''__log'', MusicKit__log),
    (''AuthStatus'', AuthStatus),
    (''Logger'', Logger),
    (''Configuration'', Configuration),
    (''configure'', configure),
    (''getInstance'', getInstance),
    (''formatArtworkURL'', formatArtworkURL),
    (''formattedMilliseconds'', formattedMilliseconds),
    (''formattedSeconds'', formattedSeconds),
    (''generateEmbedCode'', generateEmbedCode),
    (''formatMediaTime'', formatMediaTime),
    (''MusicItemID'', MusicItemID),
    (''ContentRating'', ContentRating),
    (''BaseResource'', BaseResource),
    (''BaseMediaResource'', BaseMediaResource),
    (''BaseLibraryResource'', BaseLibraryResource),
    (''ResourceMap'', ResourceMap),
    (''Relationships'', Relationships),
    (''Relationship'', Relationship),
    (''View'', View),
    (''Resource'', Resource),
    (''Storefronts'', Storefronts),
    (''Genres'', Genres),
    (''Songs'', Songs),
    (''MusicVideos'', MusicVideos),
    (''AppleCurators'', AppleCurators),
    (''Curators'', Curators),
    (''Stations'', Stations),
    (''RecordLabels'', RecordLabels),
    (''Albums'', Albums),
    (''LibraryAlbums'', LibraryAlbums),
    (''LibrarySongs'', LibrarySongs),
    (''LibraryPlaylists'', LibraryPlaylists),
    (''Artists'', Artists),
    (''Playlists'', Playlists),
    (''PodcastAttributes'', PodcastAttributes),
    (''PodcastEpisode'', PodcastEpisode),
    (''Podcasts'', Podcasts),
    (''Activities'', Activities),
    (''PersonalRecommendation'', PersonalRecommendation),
    (''SocialProfile'', SocialProfile),
    (''Groupings'', Groupings),
    (''Rooms'', Rooms),
    (''EditorialElements'', EditorialElements),
    (''EditorialItem'', EditorialItem),
    (''PlainEditorialCard'', PlainEditorialCard),
    (''Lyrics'', Lyrics),
    (''Credit'', Credit),
    (''CreditArtist'', CreditArtist),
    (''Rating'', Rating),
    (''AudioAnalysis'', AudioAnalysis),
    (''ReplaySummary'', ReplaySummary),
    (''ReplayMilestone'', ReplayMilestone),
    (''ReplayItemSummary'', ReplayItemSummary),
    (''Suggestion'', Suggestion),
    (''EditorialNotes'', EditorialNotes),
    (''Artwork'', Artwork),
    (''ArtworkKinds'', ArtworkKinds),
    (''ArtworkFormats'', ArtworkFormats),
    (''EditorialArtworkTypes'', EditorialArtworkTypes),
    (''EditorialArtwork'', EditorialArtwork),
    (''EditorialVideoTypes'', EditorialVideoTypes),
    (''Video'', Video),
    (''EditorialVideo'', EditorialVideo),
    (''Preview'', Preview),
    (''DescriptionAttribute'', DescriptionAttribute),
    (''SearchResult'', SearchResult),
    (''SearchChartResult'', SearchChartResult),
    (''QueryParameters'', QueryParameters),
    (''QueryOptions'', QueryOptions),
    (''v3MusicRoutes'', v3MusicRoutes),
    (''QueryResources'', QueryResources),
    (''ResourceTypes'', ResourceTypes),
    (''QueryResponse'', QueryResponse),
    (''QueryResult'', QueryResult),
    (''API'', API),
    (''Events'', Events),
    (''MKError'', MKError),
    (''MusicKitInstance'', MusicKitInstance),
    (''PlaybackStates'', PlaybackStates),
    (''PlaybackBitrate'', PlaybackBitrate),
    (''PlayerRepeatMode'', PlayerRepeatMode),
    (''PlayerShuffleMode'', PlayerShuffleMode),
    (''MediaItemPosition'', MediaItemPosition),
    (''MediaItemAsset'', MediaItemAsset),
    (''Container'', Container),
    (''Context'', Context),
    (''Player'', Player),
    (''Queue'', Queue),
    (''SetQueueOptions'', SetQueueOptions)]"

section \<open>What a type checker computes from the declarations\<close>

subsection \<open>Name resolution\<close>

text \<open>
  All declarations live in the one namespace, so \<^verbatim>\<open>MusicKit.Songs\<close> and \<^verbatim>\<open>Songs\<close>
  name the same declaration. A name that the table does not hold (a type of the
  standard library, or of a file that is not among the sources) resolves to \<open>None\<close>.
\<close>

definition local_name :: "string \<Rightarrow> string" where
  "local_name n = (if take 9 n = ''MusicKit.'' then drop 9 n else n)"

definition lookup :: "string \<Rightarrow> decl option" where
  "lookup n = map_of MusicKit (local_name n)"

fun ty_name :: "ty \<Rightarrow> string option" where
  "ty_name (TRef n) = Some (local_name n)"
| "ty_name (TApp n ts) = Some (local_name n)"
| "ty_name t = None"

fun members :: "decl \<Rightarrow> member list" where
  "members (Interface ps es ms) = ms"
| "members (Class es ms ss) = ms"
| "members d = []"

fun static_members :: "decl \<Rightarrow> member list" where
  "static_members (Class es ms ss) = ss"
| "static_members d = []"

fun heritage :: "decl \<Rightarrow> ty list" where
  "heritage (Interface ps es ms) = es"
| "heritage (Class es ms ss) = es"
| "heritage d = []"

fun own_prop :: "member list \<Rightarrow> string \<Rightarrow> member option" where
  "own_prop [] x = None"
| "own_prop (Prop n a p t # ms) x = (if n = x then Some (Prop n a p t) else own_prop ms x)"
| "own_prop (m # ms) x = own_prop ms x"

subsection \<open>Enum member values\<close>

text \<open>
  A member with an initialiser has that value; a member without one has the value of
  the member before it plus one, and the first member has 0.
\<close>

fun enum_from :: "int \<Rightarrow> (string \<times> int option) list \<Rightarrow> (string \<times> int) list" where
  "enum_from next [] = []"
| "enum_from next ((n, None) # ms) = (n, next) # enum_from (next + 1) ms"
| "enum_from next ((n, Some v) # ms) = (n, v) # enum_from (v + 1) ms"

fun enum_members :: "decl \<Rightarrow> (string \<times> int) list" where
  "enum_members (Enum ms) = enum_from 0 ms"
| "enum_members d = []"

definition enum_names :: "string list" where
  "enum_names = [n. (n, Enum ms) \<leftarrow> MusicKit]"

subsection \<open>The type expressions of a declaration\<close>

text \<open>Every type expression written in a declaration, with all its sub-expressions.\<close>

fun ty_parts :: "ty \<Rightarrow> ty list"
  and param_parts :: "param \<Rightarrow> ty list"
  and tparam_parts :: "tparam \<Rightarrow> ty list"
  and member_parts :: "member \<Rightarrow> ty list"
where
  "ty_parts (TApp n ts) = TApp n ts # concat (map ty_parts ts)"
| "ty_parts (TArray t) = TArray t # ty_parts t"
| "ty_parts (TKeyof t) = TKeyof t # ty_parts t"
| "ty_parts (TIndex t k) = TIndex t k # ty_parts t @ ty_parts k"
| "ty_parts (TUnion ts) = TUnion ts # concat (map ty_parts ts)"
| "ty_parts (TInter ts) = TInter ts # concat (map ty_parts ts)"
| "ty_parts (TTuple ts) = TTuple ts # concat (map ty_parts ts)"
| "ty_parts (TFun ps r) = TFun ps r # concat (map param_parts ps) @ ty_parts r"
| "ty_parts (TMapped k c m t) = TMapped k c m t # ty_parts c @ ty_parts t"
| "ty_parts (TObj ms) = TObj ms # concat (map member_parts ms)"
| "ty_parts t = [t]"
| "param_parts (Param n p t) = ty_parts t"
| "tparam_parts (TParam n c d) =
     (case c of None \<Rightarrow> [] | Some t \<Rightarrow> ty_parts t) @
     (case d of None \<Rightarrow> [] | Some t \<Rightarrow> ty_parts t)"
| "member_parts (Prop n a p t) = ty_parts t"
| "member_parts (Method n tps ps r) =
     concat (map tparam_parts tps) @ concat (map param_parts ps) @ ty_parts r"
| "member_parts (IndexSig n k v) = ty_parts k @ ty_parts v"

text \<open>The type expressions of a declaration outside its \<^verbatim>\<open>extends\<close> clause.\<close>

fun body_parts :: "decl \<Rightarrow> ty list" where
  "body_parts (Interface tps es ms) =
     concat (map tparam_parts tps) @ concat (map member_parts ms)"
| "body_parts (Alias t) = ty_parts t"
| "body_parts (Enum ms) = []"
| "body_parts (Class es ms ss) = concat (map member_parts ms) @ concat (map member_parts ss)"
| "body_parts (Const t) = ty_parts t"
| "body_parts (Function ps r) = concat (map param_parts ps) @ ty_parts r"

definition decl_parts :: "decl \<Rightarrow> ty list" where
  "decl_parts d = concat (map ty_parts (heritage d)) @ body_parts d"

definition numeric_literals :: "decl \<Rightarrow> int list" where
  "numeric_literals d = [k. TNumLit k \<leftarrow> decl_parts d]"

definition numeric_literal_decls :: "(string \<times> int list) list" where
  "numeric_literal_decls =
     [(n, numeric_literals d). (n, d) \<leftarrow> MusicKit, numeric_literals d \<noteq> []]"

subsection \<open>Aliases, values and assignability of scalar types\<close>

text \<open>
  \<open>unalias\<close> replaces a reference to a type alias by the alias's type, through unions
  and intersections; the fuel bounds the length of a chain of aliases, and the number
  of declarations is enough for any chain that does not run in a circle.
\<close>

fun unalias :: "nat \<Rightarrow> ty \<Rightarrow> ty" where
  "unalias 0 t = t"
| "unalias (Suc k) (TRef n) =
     (case lookup n of Some (Alias t) \<Rightarrow> unalias k t | _ \<Rightarrow> TRef n)"
| "unalias (Suc k) (TUnion ts) = TUnion (map (unalias (Suc k)) ts)"
| "unalias (Suc k) (TInter ts) = TInter (map (unalias (Suc k)) ts)"
| "unalias (Suc k) t = t"

definition resolve :: "ty \<Rightarrow> ty" where
  "resolve t = unalias (length MusicKit) t"

text \<open>The scalar types: primitive and literal types, and their unions and intersections.\<close>

fun scalar :: "ty \<Rightarrow> bool" where
  "scalar TAny = True"
| "scalar TUnknown = True"
| "scalar TUndefined = True"
| "scalar TNull = True"
| "scalar TVoid = True"
| "scalar TString = True"
| "scalar TNumber = True"
| "scalar TBoolean = True"
| "scalar (TStrLit s) = True"
| "scalar (TNumLit k) = True"
| "scalar (TUnion ts) = list_all scalar ts"
| "scalar (TInter ts) = list_all scalar ts"
| "scalar t = False"



text \<open>
  Assignability of a scalar source type to a scalar target type: \<open>any\<close> goes both ways,
  everything goes to \<open>unknown\<close>, a literal type widens to its primitive type, a union
  source needs every constituent assignable and a union target one, an intersection
  source needs one constituent assignable and an intersection target every one.
\<close>

definition widens :: "ty \<Rightarrow> ty \<Rightarrow> bool" where
  "widens s t =
     (case s of
        TStrLit a \<Rightarrow> t = TString
      | TNumLit a \<Rightarrow> t = TNumber
      | TUndefined \<Rightarrow> t = TVoid
      | _ \<Rightarrow> False)"

fun atom_assignable :: "ty \<Rightarrow> ty \<Rightarrow> bool" where
  "atom_assignable s TAny = True"
| "atom_assignable s TUnknown = True"
| "atom_assignable s (TUnion ts) = (s = TAny \<or> list_ex (atom_assignable s) ts)"
| "atom_assignable s (TInter ts) = (s = TAny \<or> list_all (atom_assignable s) ts)"
| "atom_assignable s t = (s = TAny \<or> s = t \<or> widens s t)"

fun assignable :: "ty \<Rightarrow> ty \<Rightarrow> bool" where
  "assignable (TUnion ss) t = list_all (\<lambda>s. assignable s t) ss"
| "assignable (TInter ss) t = list_ex (\<lambda>s. assignable s t) ss"
| "assignable s t = atom_assignable s t"

subsection \<open>Heritage\<close>

text \<open>
  The property an interface inherits under a name: the first one found in its
  \<^verbatim>\<open>extends\<close> clause, searching each base interface and then that interface's bases.
\<close>

fun inherited_prop :: "nat \<Rightarrow> ty list \<Rightarrow> string \<Rightarrow> member option" where
  "inherited_prop k [] x = None"
| "inherited_prop 0 (e # es) x = None"
| "inherited_prop (Suc k) (e # es) x =
     (case (case ty_name e of
              None \<Rightarrow> None
            | Some n \<Rightarrow>
                (case lookup n of
                   None \<Rightarrow> None
                 | Some d \<Rightarrow>
                     (case own_prop (members d) x of
                        Some m \<Rightarrow> Some m
                      | None \<Rightarrow> inherited_prop k (heritage d) x))) of
        Some m \<Rightarrow> Some m
      | None \<Rightarrow> inherited_prop (Suc k) es x)"

text \<open>
  An interface that extends another must keep each inherited property compatible: a
  property the base requires may not become optional, and the property's type must be
  assignable to the inherited one. The type check is made where both types are scalar.
\<close>

fun conflict :: "member \<Rightarrow> member \<Rightarrow> bool" where
  "conflict (Prop n a p t) (Prop n' a' p' t') =
     ((p = Optional \<and> p' = Required) \<or>
      (scalar (resolve t) \<and> scalar (resolve t') \<and> \<not> assignable (resolve t) (resolve t')))"
| "conflict m m' = False"

definition heritage_conflicts :: "decl \<Rightarrow> string list" where
  "heritage_conflicts d =
     [n. Prop n a p t \<leftarrow> members d,
         case inherited_prop (length MusicKit) (heritage d) n of
           None \<Rightarrow> False
         | Some m \<Rightarrow> conflict (Prop n a p t) m]"

definition ill_formed_heritage :: "(string \<times> string list) list" where
  "ill_formed_heritage =
     [(n, heritage_conflicts d). (n, d) \<leftarrow> MusicKit, heritage_conflicts d \<noteq> []]"




subsection \<open>Mapped types\<close>

text \<open>Substitution of a type for a type parameter, up to a binder of the same name.\<close>

fun tparam_name :: "tparam \<Rightarrow> string" where
  "tparam_name (TParam n c d) = n"

fun subst :: "string \<Rightarrow> ty \<Rightarrow> ty \<Rightarrow> ty"
  and subst_param :: "string \<Rightarrow> ty \<Rightarrow> param \<Rightarrow> param"
  and subst_tparam :: "string \<Rightarrow> ty \<Rightarrow> tparam \<Rightarrow> tparam"
  and subst_member :: "string \<Rightarrow> ty \<Rightarrow> member \<Rightarrow> member"
where
  "subst k r (TVar x) = (if x = k then r else TVar x)"
| "subst k r (TApp n ts) = TApp n (map (subst k r) ts)"
| "subst k r (TArray t) = TArray (subst k r t)"
| "subst k r (TKeyof t) = TKeyof (subst k r t)"
| "subst k r (TIndex t i) = TIndex (subst k r t) (subst k r i)"
| "subst k r (TUnion ts) = TUnion (map (subst k r) ts)"
| "subst k r (TInter ts) = TInter (map (subst k r) ts)"
| "subst k r (TTuple ts) = TTuple (map (subst k r) ts)"
| "subst k r (TFun ps t) = TFun (map (subst_param k r) ps) (subst k r t)"
| "subst k r (TMapped x c m t) =
     TMapped x (subst k r c) m (if x = k then t else subst k r t)"
| "subst k r (TObj ms) = TObj (map (subst_member k r) ms)"
| "subst k r t = t"
| "subst_param k r (Param n p t) = Param n p (subst k r t)"
| "subst_tparam k r (TParam n c d) =
     TParam n (map_option (subst k r) c) (map_option (subst k r) d)"
| "subst_member k r (Prop n a p t) = Prop n a p (subst k r t)"
| "subst_member k r (Method n tps ps t) =
     (if k \<in> set (map tparam_name tps) then Method n tps ps t
      else Method n (map (subst_tparam k r) tps) (map (subst_param k r) ps) (subst k r t))"
| "subst_member k r (IndexSig n kt vt) = IndexSig n (subst k r kt) (subst k r vt)"

fun mapped_presence :: "mapped_modifier \<Rightarrow> presence \<Rightarrow> presence" where
  "mapped_presence MakeOptional p = Optional"
| "mapped_presence Keep p = p"

text \<open>The keys of an interface whose members are all properties, with their modifiers.\<close>

fun keyed :: "member list \<Rightarrow> (string \<times> access \<times> presence) list option" where
  "keyed [] = Some []"
| "keyed (Prop n a p t # ms) = map_option (Cons (n, a, p)) (keyed ms)"
| "keyed (m # ms) = None"

definition keyof :: "decl \<Rightarrow> string list" where
  "keyof d = (case keyed (members d) of None \<Rightarrow> [] | Some ks \<Rightarrow> map fst ks)"

fun literal_keys :: "ty \<Rightarrow> string list option" where
  "literal_keys (TStrLit s) = Some [s]"
| "literal_keys (TUnion []) = Some []"
| "literal_keys (TUnion (t # ts)) =
     (case (literal_keys t, literal_keys (TUnion ts)) of
        (Some xs, Some ys) \<Rightarrow> Some (xs @ ys)
      | _ \<Rightarrow> None)"
| "literal_keys t = None"

text \<open>
  The object type a mapped type stands for. Over \<^verbatim>\<open>keyof I\<close>, for an interface \<open>I\<close>
  without type parameters and bases whose members are all properties, the mapped type
  has one property per property of \<open>I\<close>, in order, with \<open>I\<close>'s modifiers unless the
  mapped type sets one, and with the key's literal type put for the type parameter.
  Over a union of string literal types it has one required property per literal.
  Other mapped types are outside the model (\<open>None\<close>).
\<close>

definition expand_mapped :: "ty \<Rightarrow> member list option" where
  "expand_mapped t =
     (case t of
        TMapped k c m b \<Rightarrow>
          (case c of
             TKeyof c' \<Rightarrow>
               (case ty_name c' of
                  None \<Rightarrow> None
                | Some n \<Rightarrow>
                    (case lookup n of
                       Some (Interface [] [] ms) \<Rightarrow>
                         map_option
                           (map (\<lambda>(x, a, p). Prop x a (mapped_presence m p) (subst k (TStrLit x) b)))
                           (keyed ms)
                     | _ \<Rightarrow> None))
           | _ \<Rightarrow>
               map_option
                 (map (\<lambda>x. Prop x Mutable (mapped_presence m Required) (subst k (TStrLit x) b)))
                 (literal_keys (resolve c)))
      | _ \<Rightarrow> None)"

definition mapped_members :: "decl \<Rightarrow> member list option" where
  "mapped_members d = (case d of Alias t \<Rightarrow> expand_mapped t | _ \<Rightarrow> None)"

subsection \<open>The graphs of the declarations\<close>







subsection \<open>The forms in which declarations relate\<close>








section \<open>Properties of the declarations\<close>

subsection \<open>Looking names up\<close>

lemmas decl_defs =
  AppConfiguration_def FormattedPlaybackDuration_def EmbedOptions_def errors_def version_def
  MusicKit__log_def AuthStatus_def Logger_def Configuration_def configure_def getInstance_def
  formatArtworkURL_def formattedMilliseconds_def formattedSeconds_def generateEmbedCode_def
  formatMediaTime_def MusicItemID_def ContentRating_def BaseResource_def BaseMediaResource_def
  BaseLibraryResource_def ResourceMap_def Relationships_def Relationship_def View_def
  Resource_def Storefronts_def Genres_def Songs_def MusicVideos_def AppleCurators_def
  Curators_def Stations_def RecordLabels_def Albums_def LibraryAlbums_def LibrarySongs_def
  LibraryPlaylists_def Artists_def Playlists_def PodcastAttributes_def PodcastEpisode_def
  Podcasts_def Activities_def PersonalRecommendation_def SocialProfile_def Groupings_def
  Rooms_def EditorialElements_def EditorialItem_def PlainEditorialCard_def Lyrics_def Credit_def
  CreditArtist_def Rating_def AudioAnalysis_def ReplaySummary_def ReplayMilestone_def
  ReplayItemSummary_def Suggestion_def EditorialNotes_def Artwork_def ArtworkKinds_def
  ArtworkFormats_def EditorialArtworkTypes_def EditorialArtwork_def EditorialVideoTypes_def
  Video_def EditorialVideo_def Preview_def DescriptionAttribute_def SearchResult_def
  SearchChartResult_def QueryParameters_def QueryOptions_def v3MusicRoutes_def
  QueryResources_def ResourceTypes_def QueryResponse_def QueryResult_def API_def Events_def
  MKError_def MusicKitInstance_def PlaybackStates_def PlaybackBitrate_def PlayerRepeatMode_def
  PlayerShuffleMode_def MediaItemPosition_def MediaItemAsset_def Container_def Context_def
  Player_def Queue_def SetQueueOptions_def

lemma namespace_size: "length MusicKit = 95"
  by (simp add: MusicKit_def)

lemma lookup_interfaces:
  "lookup ''Resource'' = Some Resource"
  "lookup ''BaseResource'' = Some BaseResource"
  "lookup ''Songs'' = Some Songs"
  "lookup ''Albums'' = Some Albums"
  "lookup ''Player'' = Some Player"
  "lookup ''ResourceMap'' = Some ResourceMap"
  by (simp_all add: lookup_def local_name_def MusicKit_def)

lemma lookup_aliases:
  "lookup ''PlayerRepeatMode'' = Some PlayerRepeatMode"
  "lookup ''PlayerShuffleMode'' = Some PlayerShuffleMode"
  "lookup ''MusicItemID'' = Some MusicItemID"
  by (simp_all add: lookup_def local_name_def MusicKit_def)

lemma lookup_others:
  "lookup ''PlaybackBitrate'' = Some PlaybackBitrate"
  "lookup ''PlaybackStates'' = Some PlaybackStates"
  "lookup ''Queue'' = Some Queue"
  "lookup ''Error'' = None"
  by (simp_all add: lookup_def local_name_def MusicKit_def)


subsection \<open>Enums and numeric literals\<close>

lemma AuthStatus_members:
  "enum_members AuthStatus =
     [(''NOT_DETERMINED'', 0), (''DENIED'', 1), (''RESTRICTED'', 2), (''AUTHORIZED'', 3)]"
  by (simp add: AuthStatus_def)

lemma PlaybackBitrate_members:
  "enum_members PlaybackBitrate = [(''HIGH'', 256), (''STANDARD'', 64)]"
  by (simp add: PlaybackBitrate_def)

lemma PlaybackStates_members:
  "enum_members PlaybackStates =
     [(''none'', 0), (''loading'', 1), (''playing'', 2), (''paused'', 3), (''stopped'', 4),
      (''ended'', 5), (''seeking'', 6), (''waiting'', 7), (''stalled'', 8), (''completed'', 9)]"
  by (simp add: PlaybackStates_def)

lemma enum_names_eval: "enum_names = [''AuthStatus'', ''PlaybackStates'', ''PlaybackBitrate'']"
  by code_simp

lemma numeric_literal_decls_eval:
  "numeric_literal_decls = [(''PlayerRepeatMode'', [0, 1, 2]), (''PlayerShuffleMode'', [0, 1])]"
  by code_simp

text \<open>
  C9. The enum declarations fix their members' values: \<open>AuthStatus\<close> has
  \<open>NOT_DETERMINED = 0\<close>, \<open>DENIED = 1\<close>, \<open>RESTRICTED = 2\<close>, \<open>AUTHORIZED = 3\<close> and
  \<open>PlaybackBitrate\<close> has \<open>HIGH = 256\<close>, \<open>STANDARD = 64\<close>, and these enums have no other
  member. They are the only numeric constants for authorization state and audio
  quality: the namespace has one more enum, \<open>PlaybackStates\<close>, and writes numeric
  literals in no declaration but the two player mode aliases.
\<close>

theorem enum_values_pinned:
  "enum_members AuthStatus =
     [(''NOT_DETERMINED'', 0), (''DENIED'', 1), (''RESTRICTED'', 2), (''AUTHORIZED'', 3)] \<and>
   enum_members PlaybackBitrate = [(''HIGH'', 256), (''STANDARD'', 64)] \<and>
   enum_names = [''AuthStatus'', ''PlaybackStates'', ''PlaybackBitrate''] \<and>
   numeric_literal_decls = [(''PlayerRepeatMode'', [0, 1, 2]), (''PlayerShuffleMode'', [0, 1])]"
  by (simp only: AuthStatus_members PlaybackBitrate_members enum_names_eval
      numeric_literal_decls_eval simp_thms)

subsection \<open>The player's mode fields\<close>









text \<open>
  Assignability is not empty: a literal type goes to itself, to a union that holds it
  and to its primitive type, and \<open>any\<close>, the type that switches the check off, goes
  everywhere.
\<close>

lemma assignable_examples:
  "assignable (TNumLit 1) (TUnion [TNumLit 0, TNumLit 1])"
  "assignable (TUnion [TNumLit 0, TNumLit 1]) (TUnion [TNumLit 0, TNumLit 1, TNumLit 2])"
  "assignable (TStrLit ''songs'') TString"
  "assignable (TNumLit 2) TNumber"
  "assignable TAny (TUnion [TNumLit 0, TNumLit 1])"
  "\<not> assignable (TUnion [TNumLit 0, TNumLit 1, TNumLit 2]) (TUnion [TNumLit 0, TNumLit 1])"
  by (simp_all add: widens_def)


subsection \<open>The mapped type \<open>Relationships\<close>\<close>

lemma keyof_ResourceMap:
  "keyof ResourceMap =
     [''songs'', ''albums'', ''artists'', ''playlists'', ''storefronts'',
      ''library-playlist-folders'', ''library-playlists'', ''library-songs'',
      ''library-albums'', ''library-artists'', ''curator'', ''social-profiles'',
      ''apple-curators'', ''credit-artists'', ''lyrics'', ''credits'', ''catalog'',
      ''personal-recommendation'', ''stations'', ''music-summaries'',
      ''music-summaries-milestones'', ''editorial-items'']"
  by (simp add: keyof_def ResourceMap_def)

lemma Relationships_expanded:
  "mapped_members Relationships =
     Some (map (\<lambda>k. Prop k Mutable Optional
                 (TApp ''Relationship'' [TIndex (TRef ''MusicKit.ResourceMap'') (TStrLit k)]))
               (keyof ResourceMap))"
  unfolding keyof_ResourceMap
  by (simp add: mapped_members_def Relationships_def expand_mapped_def local_name_def
      lookup_interfaces ResourceMap_def)

text \<open>
  C8. \<open>Relationships\<close> is the pointwise image of \<open>ResourceMap\<close> under \<open>Relationship<_>\<close>:
  the mapped type stands for the object type that has, for every key \<open>K\<close> of
  \<open>ResourceMap\<close> and in the same order, the optional property \<open>K\<close> of type
  \<open>Relationship<MusicKit.ResourceMap[K]>\<close>, and nothing else. The keys of \<open>ResourceMap\<close>
  are the names of its 22 properties, all different.
\<close>

theorem Relationships_pointwise:
  "mapped_members Relationships =
     Some (map (\<lambda>k. Prop k Mutable Optional
                 (TApp ''Relationship'' [TIndex (TRef ''MusicKit.ResourceMap'') (TStrLit k)]))
               (keyof ResourceMap)) \<and>
   keyof ResourceMap =
     [''songs'', ''albums'', ''artists'', ''playlists'', ''storefronts'',
      ''library-playlist-folders'', ''library-playlists'', ''library-songs'',
      ''library-albums'', ''library-artists'', ''curator'', ''social-profiles'',
      ''apple-curators'', ''credit-artists'', ''lyrics'', ''credits'', ''catalog'',
      ''personal-recommendation'', ''stations'', ''music-summaries'',
      ''music-summaries-milestones'', ''editorial-items''] \<and>
   length (keyof ResourceMap) = length (members ResourceMap) \<and>
   distinct (keyof ResourceMap)"
proof -
  have l: "length (keyof ResourceMap) = length (members ResourceMap)"
    unfolding keyof_ResourceMap by (simp add: ResourceMap_def)
  have d: "distinct (keyof ResourceMap)"
    unfolding keyof_ResourceMap by simp
  from Relationships_expanded keyof_ResourceMap l d show ?thesis by blast
qed

subsection \<open>Heritage of the library interfaces\<close>

lemma LibraryAlbums_type:
  "own_prop (members LibraryAlbums) ''type'' =
     Some (Prop ''type'' Mutable Required (TStrLit ''library-albums''))"
  by (simp add: LibraryAlbums_def)

lemma LibraryAlbums_inherits_type:
  "inherited_prop (length MusicKit) (heritage LibraryAlbums) ''type'' =
     Some (Prop ''type'' Mutable Required (TStrLit ''albums''))"
  by (simp add: namespace_size eval_nat_numeral LibraryAlbums_def local_name_def
      lookup_interfaces Albums_def)

lemma LibraryAlbums_conflicts: "heritage_conflicts LibraryAlbums = [''type'', ''views'']"
  by (simp add: heritage_conflicts_def namespace_size eval_nat_numeral LibraryAlbums_def
      local_name_def lookup_interfaces Albums_def resolve_def widens_def)

lemma LibrarySongs_conflicts: "heritage_conflicts LibrarySongs = [''type'']"
  by (simp add: heritage_conflicts_def namespace_size eval_nat_numeral LibrarySongs_def
      local_name_def lookup_interfaces Songs_def Resource_def BaseResource_def resolve_def
      widens_def)

text \<open>No other declaration has a conflict with what it inherits.\<close>

lemma no_heritage_conflicts:
  "heritage_conflicts AppConfiguration = []"
  "heritage_conflicts FormattedPlaybackDuration = []"
  "heritage_conflicts EmbedOptions = []"
  "heritage_conflicts errors = []"
  "heritage_conflicts version = []"
  "heritage_conflicts MusicKit__log = []"
  "heritage_conflicts AuthStatus = []"
  "heritage_conflicts Logger = []"
  "heritage_conflicts Configuration = []"
  "heritage_conflicts configure = []"
  "heritage_conflicts getInstance = []"
  "heritage_conflicts formatArtworkURL = []"
  "heritage_conflicts formattedMilliseconds = []"
  "heritage_conflicts formattedSeconds = []"
  "heritage_conflicts generateEmbedCode = []"
  "heritage_conflicts formatMediaTime = []"
  "heritage_conflicts MusicItemID = []"
  "heritage_conflicts ContentRating = []"
  "heritage_conflicts BaseResource = []"
  "heritage_conflicts BaseMediaResource = []"
  "heritage_conflicts BaseLibraryResource = []"
  "heritage_conflicts ResourceMap = []"
  "heritage_conflicts Relationships = []"
  "heritage_conflicts Relationship = []"
  "heritage_conflicts View = []"
  "heritage_conflicts Resource = []"
  "heritage_conflicts Storefronts = []"
  "heritage_conflicts Genres = []"
  "heritage_conflicts Songs = []"
  "heritage_conflicts MusicVideos = []"
  "heritage_conflicts AppleCurators = []"
  "heritage_conflicts Curators = []"
  "heritage_conflicts Stations = []"
  "heritage_conflicts RecordLabels = []"
  "heritage_conflicts Albums = []"
  "heritage_conflicts LibraryPlaylists = []"
  "heritage_conflicts Artists = []"
  "heritage_conflicts Playlists = []"
  "heritage_conflicts PodcastAttributes = []"
  "heritage_conflicts PodcastEpisode = []"
  "heritage_conflicts Podcasts = []"
  "heritage_conflicts Activities = []"
  "heritage_conflicts PersonalRecommendation = []"
  "heritage_conflicts SocialProfile = []"
  "heritage_conflicts Groupings = []"
  "heritage_conflicts Rooms = []"
  "heritage_conflicts EditorialElements = []"
  "heritage_conflicts EditorialItem = []"
  "heritage_conflicts PlainEditorialCard = []"
  "heritage_conflicts Lyrics = []"
  "heritage_conflicts Credit = []"
  "heritage_conflicts CreditArtist = []"
  "heritage_conflicts Rating = []"
  "heritage_conflicts AudioAnalysis = []"
  "heritage_conflicts ReplaySummary = []"
  "heritage_conflicts ReplayMilestone = []"
  "heritage_conflicts ReplayItemSummary = []"
  "heritage_conflicts Suggestion = []"
  "heritage_conflicts EditorialNotes = []"
  "heritage_conflicts Artwork = []"
  "heritage_conflicts ArtworkKinds = []"
  "heritage_conflicts ArtworkFormats = []"
  "heritage_conflicts EditorialArtworkTypes = []"
  "heritage_conflicts EditorialArtwork = []"
  "heritage_conflicts EditorialVideoTypes = []"
  "heritage_conflicts Video = []"
  "heritage_conflicts EditorialVideo = []"
  "heritage_conflicts Preview = []"
  "heritage_conflicts DescriptionAttribute = []"
  "heritage_conflicts SearchResult = []"
  "heritage_conflicts SearchChartResult = []"
  "heritage_conflicts QueryParameters = []"
  "heritage_conflicts QueryOptions = []"
  "heritage_conflicts v3MusicRoutes = []"
  "heritage_conflicts QueryResources = []"
  "heritage_conflicts ResourceTypes = []"
  "heritage_conflicts QueryResponse = []"
  "heritage_conflicts QueryResult = []"
  "heritage_conflicts API = []"
  "heritage_conflicts Events = []"
  "heritage_conflicts MKError = []"
  "heritage_conflicts MusicKitInstance = []"
  "heritage_conflicts PlaybackStates = []"
  "heritage_conflicts PlaybackBitrate = []"
  "heritage_conflicts PlayerRepeatMode = []"
  "heritage_conflicts PlayerShuffleMode = []"
  "heritage_conflicts MediaItemPosition = []"
  "heritage_conflicts MediaItemAsset = []"
  "heritage_conflicts Container = []"
  "heritage_conflicts Context = []"
  "heritage_conflicts Player = []"
  "heritage_conflicts Queue = []"
  "heritage_conflicts SetQueueOptions = []"
  by (simp_all add: heritage_conflicts_def namespace_size eval_nat_numeral local_name_def
      lookup_interfaces lookup_aliases lookup_others resolve_def widens_def decl_defs)

lemma ill_formed_heritage_eval:
  "ill_formed_heritage =
     [(''LibraryAlbums'', [''type'', ''views'']), (''LibrarySongs'', [''type''])]"
  by (simp add: ill_formed_heritage_def MusicKit_def no_heritage_conflicts
      LibraryAlbums_conflicts LibrarySongs_conflicts)

text \<open>
  C2. The declarations are not structurally consistent. \<open>LibraryAlbums\<close> extends
  \<open>Albums\<close> and declares \<open>type: "library-albums"\<close>, while the \<open>type\<close> it inherits from
  \<open>Albums\<close> is \<open>"albums"\<close>; the one literal type is not assignable to the other. It
  also makes \<open>views\<close> optional, which \<open>Albums\<close> requires. \<open>LibrarySongs\<close> against
  \<open>Songs\<close> has the same conflict on \<open>type\<close>. These are the only conflicts of this kind
  in the namespace; \<open>LibraryPlaylists\<close>, which extends \<open>Resource\<close> rather than
  \<open>Playlists\<close>, has none.
\<close>

theorem LibraryAlbums_incompatible_with_Albums:
  "heritage LibraryAlbums = [TRef ''Albums''] \<and>
   own_prop (members LibraryAlbums) ''type'' =
     Some (Prop ''type'' Mutable Required (TStrLit ''library-albums'')) \<and>
   inherited_prop (length MusicKit) (heritage LibraryAlbums) ''type'' =
     Some (Prop ''type'' Mutable Required (TStrLit ''albums'')) \<and>
   \<not> assignable (TStrLit ''library-albums'') (TStrLit ''albums'') \<and>
   heritage_conflicts LibraryAlbums = [''type'', ''views''] \<and>
   ill_formed_heritage =
     [(''LibraryAlbums'', [''type'', ''views'']), (''LibrarySongs'', [''type''])]"
proof -
  have h: "heritage LibraryAlbums = [TRef ''Albums'']"
    by (simp add: LibraryAlbums_def)
  have a: "\<not> assignable (TStrLit ''library-albums'') (TStrLit ''albums'')"
    by (simp add: widens_def)
  from h a LibraryAlbums_type LibraryAlbums_inherits_type LibraryAlbums_conflicts
    ill_formed_heritage_eval
  show ?thesis by blast
qed

subsection \<open>Names without a declaration, and the error catalogue\<close>

text \<open>
  \<open>Queue.items\<close> is typed \<open>MediaItem[]\<close> and \<open>SetQueueOptions.items\<close> is typed
  \<open>Descriptor[] | undefined\<close>; the embedded files declare neither \<open>MediaItem\<close> nor
  \<open>Descriptor\<close> (nor \<open>PlayParameters\<close>, the type of \<open>playParams\<close>).
\<close>

lemma Queue_items:
  "own_prop (members Queue) ''items'' =
     Some (Prop ''items'' Mutable Required (TArray (TRef ''MediaItem'')))"
  by (simp add: Queue_def)

lemma SetQueueOptions_items:
  "own_prop (members SetQueueOptions) ''items'' =
     Some (Prop ''items'' Mutable Optional (TUnion [TArray (TRef ''Descriptor''), TUndefined]))"
  by (simp add: SetQueueOptions_def)

lemma names_without_declaration:
  "lookup ''MediaItem'' = None"
  "lookup ''Descriptor'' = None"
  "lookup ''PlayParameters'' = None"
  by (simp_all add: lookup_def local_name_def MusicKit_def)

text \<open>The static members of \<open>MKError\<close> are nineteen properties of type \<open>string\<close>.\<close>

lemma MKError_catalogue:
  "static_members MKError =
     map (\<lambda>n. Prop n Mutable Required TString)
       [''ACCESS_DENIED'', ''AUTHORIZATION_ERROR'', ''CONFIGURATION_ERROR'',
        ''CONTENT_RESTRICTED'', ''INVALID_ARGUMENTS'', ''MEDIA_CERTIFICATE'',
        ''MEDIA_DESCRIPTOR'', ''MEDIA_KEY'', ''MEDIA_LICENSE'', ''MEDIA_PLAYBACK'',
        ''MEDIA_SESSION'', ''NETWORK_ERROR'', ''NOT_FOUND'', ''QUOTA_EXCEEDED'',
        ''SERVER_ERROR'', ''SERVICE_UNAVAILABLE'', ''SUBSCRIPTION_ERROR'', ''UNKNOWN_ERROR'',
        ''UNSUPPORTED_ERROR'']"
  by (simp add: MKError_def)

subsection \<open>The graphs of references and of extension\<close>













subsection \<open>The forms in which declarations relate\<close>










end
